theory Spec2Isabelle
  imports Main "HOL-Library.AList" "HOL-Library.Multiset" "HOL-Library.List_Lexorder"
    "HOL-Library.Char_ord"
begin

section \<open>Gostmark: a client for the Postmark mail API (postmark.go)\<close>

text \<open>
  The package builds a JSON packet from the fields of a \<open>PMMail\<close> value, posts it to the
  Postmark endpoint and interprets the answer. Go strings are byte sequences, and so are
  the strings of HOL. Every method with a pointer receiver \<open>p *PMMail\<close> is a function that
  returns, next to its results, the message as the call leaves it. What the package asks
  of the operating system, of the Go runtime, of the HTTP client and of the JSON decoder
  is a parameter (the record \<open>env\<close>), and every call that leaves the process is written
  to a list of events.
\<close>

subsection \<open>Constants and data\<close>

definition POSTMARK_URL :: string where
  "POSTMARK_URL = ''https://api.postmarkapp.com/email''"

definition VERSION :: string where
  "VERSION = ''0.1''"

record header =
  header_Name :: string
  header_Value :: string

record attachment =
  attachment_Name :: string
  attachment_Content :: string
  attachment_ContentType :: string

record Reply =
  ErrorCode :: int
  Message :: string
  MessageID :: string
  SubmittedAt :: string
  Reply_To :: string

record PMMail =
  userAgent :: string
  apiKey :: string
  customHeaders :: "header list"
  attachments :: "attachment list"
  Sender :: string
  ReplyTo :: string
  To :: string
  CC :: string
  BCC :: string
  Subject :: string
  Tag :: string
  HTMLBody :: string
  TextBody :: string

text \<open>
  An error made by \<open>fmt.Errorf\<close> is its format string with its integer arguments; an error
  handed over by \<open>os\<close>, \<open>io\<close>, \<open>encoding/json\<close> or \<open>net/http\<close> is opaque.
\<close>

datatype error = Errorf string "int list" | External string

text \<open>The zero value of \<open>Reply\<close>, as \<open>new(Reply)\<close> allocates it.\<close>

definition Reply_zero :: Reply where
  "Reply_zero = \<lparr>ErrorCode = 0, Message = [], MessageID = [], SubmittedAt = [], Reply_To = []\<rparr>"

subsection \<open>UTF-8, as json.Marshal reads a string\<close>

text \<open>
  \<open>utf8.DecodeRuneInString\<close>: \<open>rune_size s\<close> is the number of bytes of the encoding at the
  head of \<open>s\<close>, and 0 when the head is no valid encoding (Go answers \<open>RuneError\<close> with width
  1 then). A lead byte \<open>C2..DF\<close> takes one continuation byte \<open>80..BF\<close>, \<open>E0..EF\<close> two and
  \<open>F0..F4\<close> three; after \<open>E0\<close>, \<open>ED\<close>, \<open>F0\<close> and \<open>F4\<close> the first continuation byte has the
  narrower range that shuts out overlong forms, surrogates and values above \<open>10FFFF\<close>.
\<close>

definition cont :: "char \<Rightarrow> bool" where
  "cont c \<longleftrightarrow> (0x80::nat) \<le> of_char c \<and> of_char c \<le> (0xBF::nat)"

definition accept :: "nat \<Rightarrow> nat \<Rightarrow> char \<Rightarrow> bool" where
  "accept lo hi c \<longleftrightarrow> lo \<le> of_char c \<and> of_char c \<le> hi"

fun rune_size :: "string \<Rightarrow> nat" where
  "rune_size [] = 0"
| "rune_size (c # s) =
     (let b = of_char c :: nat in
      if b < 0x80 then 1
      else if b < 0xC2 then 0
      else if b < 0xE0 then
        (case s of c1 # _ \<Rightarrow> if cont c1 then 2 else 0 | _ \<Rightarrow> 0)
      else if b < 0xF0 then
        (case s of
           c1 # c2 # _ \<Rightarrow>
             if accept (if b = 0xE0 then 0xA0 else 0x80) (if b = 0xED then 0x9F else 0xBF) c1 \<and>
                cont c2
             then 3 else 0
         | _ \<Rightarrow> 0)
      else if b < 0xF5 then
        (case s of
           c1 # c2 # c3 # _ \<Rightarrow>
             if accept (if b = 0xF0 then 0x90 else 0x80) (if b = 0xF4 then 0x8F else 0xBF) c1 \<and>
                cont c2 \<and> cont c3
             then 4 else 0
         | _ \<Rightarrow> 0)
      else 0)"

text \<open>
  The value of the string literal that \<open>json.Marshal\<close> writes for a Go string: the encoder
  walks the string rune by rune and writes U+FFFD for every byte at which no valid
  encoding starts; everything else it writes as it is or as an escape of the same
  character. U+FFFD is the three bytes \<open>EF BF BD\<close>.
\<close>

fun coerce_utf8 :: "string \<Rightarrow> string" where
  "coerce_utf8 [] = []"
| "coerce_utf8 (c # s) =
     (case rune_size (c # s) of
        0 \<Rightarrow> [CHR 0xEF, CHR 0xBF, CHR 0xBD] @ coerce_utf8 s
      | Suc k \<Rightarrow> c # take k s @ coerce_utf8 (drop k s))"

text \<open>\<open>utf8.ValidString\<close>: every byte belongs to a valid encoding.\<close>

fun ValidString :: "string \<Rightarrow> bool" where
  "ValidString [] = True"
| "ValidString (c # s) =
     (case rune_size (c # s) of
        0 \<Rightarrow> False
      | Suc k \<Rightarrow> ValidString (drop k s))"

subsection \<open>JSON\<close>

text \<open>
  A JSON document as a decoder reads it back from the text: a string is its value, an
  object is the list of its members in the order in which they are written. The values
  kept in the \<open>map[string]interface{}\<close> of \<open>MessageAsJSONPacket\<close> are strings, the attachment
  slice and the header slice; \<open>json.Marshal\<close> writes a struct as the object of its exported
  fields in the order of their declaration and a slice as an array in the order of the
  slice. It does not fail on such values.
\<close>

datatype json = JString string | JArray "json list" | JObject "(string \<times> json) list"

datatype iface = IString string | IAttachments "attachment list" | IHeaders "header list"

definition marshal_header :: "header \<Rightarrow> json" where
  "marshal_header h =
     JObject [(''Name'', JString (coerce_utf8 (header_Name h))),
              (''Value'', JString (coerce_utf8 (header_Value h)))]"

definition marshal_attachment :: "attachment \<Rightarrow> json" where
  "marshal_attachment a =
     JObject [(''Name'', JString (coerce_utf8 (attachment_Name a))),
              (''Content'', JString (coerce_utf8 (attachment_Content a))),
              (''ContentType'', JString (coerce_utf8 (attachment_ContentType a)))]"

fun marshal_iface :: "iface \<Rightarrow> json" where
  "marshal_iface (IString s) = JString (coerce_utf8 s)"
| "marshal_iface (IAttachments as) = JArray (map marshal_attachment as)"
| "marshal_iface (IHeaders hs) = JArray (map marshal_header hs)"

text \<open>
  Ranging over a Go map delivers its entries in an order that the language leaves open
  and that changes from one run to the next. The list of numbers stands for the choices
  of the runtime: each number picks the next entry among those not yet delivered, and
  when the numbers run out the rest comes as it stands. A Go map is the list of its
  entries, with one entry for a key.
\<close>

fun MapRange :: "nat list \<Rightarrow> 'a list \<Rightarrow> 'a list" where
  "MapRange [] xs = xs"
| "MapRange (n # ns) [] = []"
| "MapRange (n # ns) (x # xs) =
     (let i = n mod length (x # xs)
      in (x # xs) ! i # MapRange ns (take i (x # xs) @ drop (Suc i) (x # xs)))"

text \<open>
  \<open>json.Marshal\<close> of a map: the encoder ranges over the map, sorts the entries it has
  collected by their keys (byte-wise, as \<open>strings.Compare\<close>), and writes them in that order.
\<close>

definition Marshal :: "nat list \<Rightarrow> (string \<times> iface) list \<Rightarrow> error + json" where
  "Marshal choices m =
     Inr (JObject (map (\<lambda>(k, v). (coerce_utf8 k, marshal_iface v))
                     (sort_key fst (MapRange choices m))))"

subsection \<open>The environment\<close>

record fileinfo =
  fileinfo_Name :: string
  fileinfo_Size :: int

record request =
  request_Method :: string
  request_URL :: string
  request_HeaderSets :: "(string \<times> string) list"
  request_Body :: json

text \<open>
  A response is its status code and what reading its body to the end gives: the bytes,
  or the error of the read.
\<close>

record response =
  StatusCode :: int
  response_Body :: "error + string"

text \<open>
  \<open>Stat\<close> stands for the \<open>stat\<close> system call, which answers with an error or with the size
  of the file; \<open>Open\<close> and \<open>ReadAll\<close> stand for \<open>os.Open\<close> and \<open>ioutil.ReadAll\<close> (an open file
  is named by its path); \<open>TypeByExtension\<close> for the host's table \<open>mime.TypeByExtension\<close>,
  which answers the empty string for an extension it does not know; \<open>MapOrder\<close> for the
  choices of the runtime when the encoder ranges over a map; \<open>Do\<close> for
  \<open>http.DefaultClient.Do\<close>; and \<open>Unmarshal\<close> for \<open>json.Unmarshal\<close> into a \<open>Reply\<close>: it returns
  its error and the \<open>Reply\<close> as the decoding leaves it.
\<close>

record env =
  Stat :: "string \<Rightarrow> error + int"
  Open :: "string \<Rightarrow> error + string"
  ReadAll :: "string \<Rightarrow> error + string"
  TypeByExtension :: "string \<Rightarrow> string"
  MapOrder :: "nat list"
  Do :: "request \<Rightarrow> error + response"
  Unmarshal :: "string \<Rightarrow> Reply \<Rightarrow> error option \<times> Reply"

datatype event =
    StatEv string
  | OpenEv string
  | ReadAllEv string
  | CloseEv string
  | DoEv request
  | CopyEv
  | BodyCloseEv

subsection \<open>Library functions the package calls\<close>

text \<open>
  \<open>path.Ext\<close>: the suffix that begins at the last dot of the last slash-separated element
  of the path, empty when that element has no dot. The loop runs from the end of the
  path towards its start and stops at a slash.
\<close>

fun Ext_loop :: "string \<Rightarrow> string \<Rightarrow> string" where
  "Ext_loop [] suffix = []"
| "Ext_loop (c # cs) suffix =
     (if c = CHR ''/'' then []
      else if c = CHR ''.'' then c # suffix
      else Ext_loop cs (c # suffix))"

definition Ext :: "string \<Rightarrow> string" where
  "Ext path = Ext_loop (rev path) []"

text \<open>
  \<open>os.Stat\<close> (Unix): the \<open>FileInfo\<close> it returns has the size the system reports and, as
  its name, \<open>basename\<close> of the path it was given. \<open>basename\<close> first removes trailing slashes,
  but never the only character, and then the directory: everything up to the last
  slash before the final character. \<open>trim_slashes\<close> is its first loop, on the reversed
  path.
\<close>

fun trim_slashes :: "string \<Rightarrow> string" where
  "trim_slashes (c # d # cs) = (if c = CHR ''/'' then trim_slashes (d # cs) else c # d # cs)"
| "trim_slashes cs = cs"

definition basename :: "string \<Rightarrow> string" where
  "basename name =
     (case trim_slashes (rev name) of
        [] \<Rightarrow> []
      | c # cs \<Rightarrow> rev (c # takeWhile (\<lambda>x. x \<noteq> CHR ''/'') cs))"

definition os_Stat :: "env \<Rightarrow> string \<Rightarrow> error + fileinfo" where
  "os_Stat env name =
     (case Stat env name of
        Inl err \<Rightarrow> Inl err
      | Inr bytes \<Rightarrow> Inr \<lparr>fileinfo_Name = basename name, fileinfo_Size = bytes\<rparr>)"

text \<open>
  \<open>base64.StdEncoding.EncodeToString\<close>: three bytes give four characters of the standard
  alphabet; one or two remaining bytes are padded with \<open>=\<close>.
\<close>

definition encodeStd :: string where
  "encodeStd = ''ABCDEFGHIJKLMNOPQRSTUVWXYZabcdefghijklmnopqrstuvwxyz0123456789+/''"

fun EncodeToString :: "string \<Rightarrow> string" where
  "EncodeToString (a # b # c # src) =
     (let val = of_char a * 65536 + of_char b * 256 + of_char c :: nat
      in encodeStd ! (val div 262144 mod 64) # encodeStd ! (val div 4096 mod 64) #
         encodeStd ! (val div 64 mod 64) # encodeStd ! (val mod 64) # EncodeToString src)"
| "EncodeToString [a, b] =
     (let val = of_char a * 65536 + of_char b * 256 :: nat
      in [encodeStd ! (val div 262144 mod 64), encodeStd ! (val div 4096 mod 64),
          encodeStd ! (val div 64 mod 64), CHR ''='']) "
| "EncodeToString [a] =
     (let val = of_char a * 65536 :: nat
      in [encodeStd ! (val div 262144 mod 64), encodeStd ! (val div 4096 mod 64),
          CHR ''='', CHR ''=''])"
| "EncodeToString [] = []"

subsection \<open>The methods of PMMail\<close>

text \<open>
  \<open>CreatePMMail\<close>: every field but the key and the user agent has its zero value. The
  format verb \<open>%f\<close> is given a string, which \<open>fmt.Sprintf\<close> prints as \<open>%!f(string=0.1)\<close>.
\<close>

definition CreatePMMail :: "string \<Rightarrow> PMMail" where
  "CreatePMMail apikey =
     \<lparr>userAgent = ''Go (Go postmark package library version %!f(string='' @ VERSION @ ''))'',
      apiKey = apikey, customHeaders = [], attachments = [],
      Sender = [], ReplyTo = [], To = [], CC = [], BCC = [], Subject = [], Tag = [],
      HTMLBody = [], TextBody = []\<rparr>"


text \<open>
  \<open>AddAttachment\<close> returns its error (\<open>None\<close> for \<open>nil\<close>), the message and the calls it made.
  \<open>int64(10e6)\<close> is 10000000. The deferred \<open>Close\<close> runs on every return after the open.
\<close>

definition AddAttachment :: "env \<Rightarrow> string \<Rightarrow> PMMail \<Rightarrow> error option \<times> PMMail \<times> event list" where
  "AddAttachment env fileName p =
     (case os_Stat env fileName of
        Inl err \<Rightarrow> (Some err, p, [StatEv fileName])
      | Inr fileNameInfo \<Rightarrow>
          if fileinfo_Size fileNameInfo > 10000000
          then (Some (Errorf ''FileName size %d exceeds 10MB limit.'' [fileinfo_Size fileNameInfo]),
                p, [StatEv fileName])
          else
            (case Open env fileName of
               Inl err \<Rightarrow> (Some err, p, [StatEv fileName, OpenEv fileName])
             | Inr fileNameHandle \<Rightarrow>
                 (case ReadAll env fileNameHandle of
                    Inl err \<Rightarrow>
                      (Some err, p, [StatEv fileName, OpenEv fileName,
                                     ReadAllEv fileNameHandle, CloseEv fileNameHandle])
                  | Inr content \<Rightarrow>
                      (let mimeType = TypeByExtension env (Ext fileName);
                           mimeType = (if length mimeType = 0 then ''application/octet-stream''
                                       else mimeType);
                           a = \<lparr>attachment_Name = fileinfo_Name fileNameInfo,
                                attachment_Content = EncodeToString content,
                                attachment_ContentType = mimeType\<rparr>
                       in (None, p\<lparr>attachments := attachments p @ [a]\<rparr>,
                           [StatEv fileName, OpenEv fileName,
                            ReadAllEv fileNameHandle, CloseEv fileNameHandle])))))"

definition checkValues :: "PMMail \<Rightarrow> error option \<times> PMMail" where
  "checkValues p =
     (if Sender p = [] then
        (Some (Errorf ''Cannot send e-mail without a sender (.Sender field)'' []), p)
      else if To p = [] then
        (Some (Errorf ''Cannot send e-mail without recipient (.To field)'' []), p)
      else if Subject p = [] then
        (Some (Errorf ''Cannot send e-mail without a subject (.Subject field)'' []), p)
      else if HTMLBody p = [] \<and> TextBody p = [] then
        (Some (Errorf ''Cannot send email without an HTML body, text body or both'' []), p)
      else (None, p))"

text \<open>
  \<open>MessageAsJSONPacket\<close>: on the error path the Go function returns an empty byte slice
  with the error; here that is \<open>Inl\<close> of the error. The map \<open>json_interface\<close> is the list of
  its entries; an assignment to a key replaces its entry or adds one.
\<close>

definition MessageAsJSONPacket :: "env \<Rightarrow> PMMail \<Rightarrow> (error + json) \<times> PMMail" where
  "MessageAsJSONPacket env p0 =
     (case checkValues p0 of
        (Some err, p) \<Rightarrow> (Inl err, p)
      | (None, p) \<Rightarrow>
          (let json_interface = [(''From'', IString (Sender p)),
                                 (''To'', IString (To p)),
                                 (''Subject'', IString (Subject p))];
               json_interface = (if ReplyTo p \<noteq> []
                  then AList.update ''ReplyTo'' (IString (ReplyTo p)) json_interface else json_interface);
               json_interface = (if CC p \<noteq> []
                  then AList.update ''Cc'' (IString (CC p)) json_interface else json_interface);
               json_interface = (if BCC p \<noteq> []
                  then AList.update ''Bcc'' (IString (BCC p)) json_interface else json_interface);
               json_interface = (if Tag p \<noteq> []
                  then AList.update ''Tag'' (IString (Tag p)) json_interface else json_interface);
               json_interface = (if HTMLBody p \<noteq> []
                  then AList.update ''HtmlBody'' (IString (HTMLBody p)) json_interface else json_interface);
               json_interface = (if TextBody p \<noteq> []
                  then AList.update ''TextBody'' (IString (TextBody p)) json_interface else json_interface);
               json_interface = (if length (attachments p) > 0
                  then AList.update ''Attachments'' (IAttachments (attachments p)) json_interface
                  else json_interface);
               json_interface = (if length (customHeaders p) > 0
                  then AList.update ''Headers'' (IHeaders (customHeaders p)) json_interface
                  else json_interface)
           in (Marshal (MapOrder env) json_interface, p)))"

text \<open>
  \<open>Send\<close> returns the pair of the Go function (the reply pointer, \<open>None\<close> for \<open>nil\<close>, and
  the error), the message and the calls made. \<open>http.NewRequest\<close> is given a constant
  method and URL and cannot fail. The header of the request is the list of the calls of
  \<open>Header.Set\<close> in their order. The deferred close of the body runs on every return after
  a response has arrived.
\<close>

definition Send :: "env \<Rightarrow> PMMail \<Rightarrow> (Reply option \<times> error option) \<times> PMMail \<times> event list" where
  "Send env p0 =
     (case MessageAsJSONPacket env p0 of
        (Inl err, p) \<Rightarrow> ((None, Some err), p, [])
      | (Inr data, p) \<Rightarrow>
          (let request = \<lparr>request_Method = ''POST'', request_URL = POSTMARK_URL,
                          request_HeaderSets =
                            [(''Accept'', ''application/json''),
                             (''Content-Type'', ''application/json''),
                             (''X-Postmark-Server-Token'', apiKey p)] @
                            map (\<lambda>h. (header_Name h, header_Value h)) (customHeaders p),
                          request_Body = data\<rparr>
           in case Do env request of
                Inl err \<Rightarrow> ((None, Some err), p, [DoEv request])
              | Inr response \<Rightarrow>
                  if StatusCode response = 401 then
                    ((None, Some (Errorf ''[Postmark] HTTP error %d : Missing headers''
                                    [StatusCode response])), p, [DoEv request, BodyCloseEv])
                  else if StatusCode response = 404 then
                    ((None, Some (Errorf ''[Postmark] HTTP error %d : Page not found''
                                    [StatusCode response])), p, [DoEv request, BodyCloseEv])
                  else if StatusCode response = 422 then
                    ((None, Some (Errorf ''[Postmark] HTTP error %d : Bad JSON''
                                    [StatusCode response])), p, [DoEv request, BodyCloseEv])
                  else if StatusCode response = 500 then
                    ((None, Some (Errorf ''[Postmark] HTTP error %d : Server error''
                                    [StatusCode response])), p, [DoEv request, BodyCloseEv])
                  else
                    (case response_Body response of
                       Inl err \<Rightarrow> ((None, Some err), p, [DoEv request, CopyEv, BodyCloseEv])
                     | Inr body \<Rightarrow>
                         (let reply = snd (Unmarshal env body Reply_zero)
                          in if ErrorCode reply \<noteq> 0 then
                               ((Some reply, Some (Errorf ''Error Code: %d'' [ErrorCode reply])),
                                p, [DoEv request, CopyEv, BodyCloseEv])
                             else ((Some reply, None), p, [DoEv request, CopyEv, BodyCloseEv])))))"

subsection \<open>The packet and the request in closed form\<close>

text \<open>
  The content of \<open>json_interface\<close> when \<open>MessageAsJSONPacket\<close> hands it to \<open>json.Marshal\<close>, as a
  function of the key, read off the assignments from the last to the first.
\<close>

definition json_interface_of :: "PMMail \<Rightarrow> string \<Rightarrow> iface option" where
  "json_interface_of p k =
     (if k = ''Headers'' \<and> customHeaders p \<noteq> [] then Some (IHeaders (customHeaders p))
      else if k = ''Attachments'' \<and> attachments p \<noteq> [] then Some (IAttachments (attachments p))
      else if k = ''TextBody'' \<and> TextBody p \<noteq> [] then Some (IString (TextBody p))
      else if k = ''HtmlBody'' \<and> HTMLBody p \<noteq> [] then Some (IString (HTMLBody p))
      else if k = ''Tag'' \<and> Tag p \<noteq> [] then Some (IString (Tag p))
      else if k = ''Bcc'' \<and> BCC p \<noteq> [] then Some (IString (BCC p))
      else if k = ''Cc'' \<and> CC p \<noteq> [] then Some (IString (CC p))
      else if k = ''ReplyTo'' \<and> ReplyTo p \<noteq> [] then Some (IString (ReplyTo p))
      else if k = ''Subject'' then Some (IString (Subject p))
      else if k = ''To'' then Some (IString (To p))
      else if k = ''From'' then Some (IString (Sender p))
      else None)"

text \<open>
  The keys the packet can have, in the order of the encoder, and the members of the
  packet: for each key in that order the member, if the map has the key.
  \<open>MessageAsJSONPacket_valid\<close> below proves that this is the document the function
  returns, whatever the runtime does.
\<close>

definition all_keys :: "string list" where
  "all_keys = [''Attachments'', ''Bcc'', ''Cc'', ''From'', ''Headers'', ''HtmlBody'', ''ReplyTo'',
               ''Subject'', ''Tag'', ''TextBody'', ''To'']"

definition packet_members :: "PMMail \<Rightarrow> (string \<times> json) list" where
  "packet_members p =
     List.map_filter (\<lambda>k. map_option (\<lambda>v. (k, marshal_iface v)) (json_interface_of p k)) all_keys"

text \<open>The entries of the map in the order of the encoder, before they are written.\<close>

definition packet_entries :: "PMMail \<Rightarrow> (string \<times> iface) list" where
  "packet_entries p = List.map_filter (\<lambda>k. map_option (Pair k) (json_interface_of p k)) all_keys"

text \<open>The request \<open>Send\<close> hands to the HTTP client for a message that passes \<open>checkValues\<close>.\<close>

definition request_of :: "PMMail \<Rightarrow> request" where
  "request_of p =
     \<lparr>request_Method = ''POST'', request_URL = POSTMARK_URL,
      request_HeaderSets =
        [(''Accept'', ''application/json''),
         (''Content-Type'', ''application/json''),
         (''X-Postmark-Server-Token'', apiKey p)] @
        map (\<lambda>h. (header_Name h, header_Value h)) (customHeaders p),
      request_Body = JObject (packet_members p)\<rparr>"

subsection \<open>Notions used to state the properties\<close>

text \<open>A non-empty string of blanks, tabs, line feeds and carriage returns.\<close>

definition whitespace_only :: "string \<Rightarrow> bool" where
  "whitespace_only s \<longleftrightarrow> s \<noteq> [] \<and> set s \<subseteq> {CHR '' '', CHR 0x09, CHR 0x0A, CHR 0x0D}"

text \<open>
  Reading a text in the standard base64 encoding (RFC 4648, section 4): the value of a
  character is its place in the alphabet \<open>A-Z a-z 0-9 + /\<close>, four characters give three
  bytes, and the last four may end in one or two \<open>=\<close>, giving two bytes or one. The
  reading is strict: no other character, no padding elsewhere, no stray bits. This is
  the yardstick for \<open>EncodeToString\<close>; the package itself never decodes.
\<close>

definition sextet :: "char \<Rightarrow> nat option" where
  "sextet c =
     (let n = of_char c :: nat in
      if 65 \<le> n \<and> n \<le> 90 then Some (n - 65)
      else if 97 \<le> n \<and> n \<le> 122 then Some (n - 71)
      else if 48 \<le> n \<and> n \<le> 57 then Some (n + 4)
      else if n = 43 then Some 62
      else if n = 47 then Some 63
      else None)"

fun base64_decode :: "string \<Rightarrow> string option" where
  "base64_decode [] = Some []"
| "base64_decode (a # b # c # d # rest) =
     (if rest = [] \<and> d = CHR ''='' then
        (if c = CHR ''='' then
           (case (sextet a, sextet b) of
              (Some x, Some y) \<Rightarrow>
                if y mod 16 = 0 then Some [char_of (x * 4 + y div 16)] else None
            | _ \<Rightarrow> None)
         else
           (case (sextet a, sextet b, sextet c) of
              (Some x, Some y, Some z) \<Rightarrow>
                if z mod 4 = 0
                then Some [char_of (x * 4 + y div 16), char_of (y mod 16 * 16 + z div 4)]
                else None
            | _ \<Rightarrow> None))
      else
        (case (sextet a, sextet b, sextet c, sextet d) of
           (Some x, Some y, Some z, Some w) \<Rightarrow>
             map_option
               (\<lambda>bytes. char_of (x * 4 + y div 16) # char_of (y mod 16 * 16 + z div 4) #
                         char_of (z mod 4 * 64 + w) # bytes)
               (base64_decode rest)
         | _ \<Rightarrow> None))"
| "base64_decode _ = None"

subsection \<open>Example values\<close>

text \<open>The message of the specification's example.\<close>

definition example_mail :: PMMail where
  "example_mail = (CreatePMMail ''1234567'')
     \<lparr>Sender := ''a@x.com'', To := ''b@x.com'', Subject := ''Hi'', TextBody := ''Hello''\<rparr>"

text \<open>
  A mocked host. It has a few files with their sizes and contents; \<open>locked.txt\<close> cannot be
  opened and \<open>bad.txt\<close> cannot be read. Its MIME table knows \<open>.txt\<close> only. Its endpoint
  answers every request with the given status and body. Its decoder knows three bodies:
  a well-formed error document, which it decodes; a document whose \<open>Message\<close> is a number,
  on which it stores \<open>ErrorCode\<close> and reports the type mismatch of \<open>Message\<close>, as
  \<open>json.Unmarshal\<close> does; and, for everything else, a syntax error that leaves the reply
  untouched.
\<close>

definition mock_files :: "(string \<times> int \<times> string) list" where
  "mock_files =
     [(''docs/report.txt'', 2, ''hi''),
      (''dir.d/README'', 6, ''foobar''),
      (''data.xyz0'', 3, [CHR 0x00, CHR 0xFF, CHR 0x10]),
      (''big.bin'', 10000001, []),
      (''locked.txt'', 2, ''hi''),
      (''bad.txt'', 2, ''hi'')]"

definition mock_Unmarshal :: "string \<Rightarrow> Reply \<Rightarrow> error option \<times> Reply" where
  \<open>mock_Unmarshal body reply =
     (if body = ''{"ErrorCode":300,"Message":"Invalid email"}''
      then (None, reply\<lparr>ErrorCode := 300, Message := ''Invalid email''\<rparr>)
      else if body = ''{"ErrorCode":300,"Message":5}''
      then (Some (External ''json: cannot unmarshal number into Go struct field Reply.Message of type string''),
            reply\<lparr>ErrorCode := 300\<rparr>)
      else (Some (External ''invalid character''), reply))\<close>

definition mock_env :: "int \<Rightarrow> string \<Rightarrow> env" where
  "mock_env status body =
     \<lparr>Stat = (\<lambda>name. case map_of mock_files name of
                 None \<Rightarrow> Inl (External ''no such file or directory'')
               | Some (bytes, content) \<Rightarrow> Inr bytes),
      Open = (\<lambda>name. if name = ''locked.txt'' then Inl (External ''permission denied'')
                      else Inr name),
      ReadAll = (\<lambda>handle. if handle = ''bad.txt'' then Inl (External ''input/output error'')
                           else case map_of mock_files handle of
                                  None \<Rightarrow> Inl (External ''bad file descriptor'')
                                | Some (bytes, content) \<Rightarrow> Inr content),
      TypeByExtension = (\<lambda>ext. if ext = ''.txt'' then ''text/plain; charset=utf-8'' else []),
      MapOrder = [],
      Do = (\<lambda>request. Inr \<lparr>StatusCode = status, response_Body = Inr body\<rparr>),
      Unmarshal = mock_Unmarshal\<rparr>"

section \<open>Properties\<close>

subsection \<open>Auxiliary facts\<close>

lemma checkValues_frame: "snd (checkValues p) = p"
  by (simp add: checkValues_def)

lemma checkValues_None_iff:
  "fst (checkValues p) = None \<longleftrightarrow>
     Sender p \<noteq> [] \<and> To p \<noteq> [] \<and> Subject p \<noteq> [] \<and> (HTMLBody p \<noteq> [] \<or> TextBody p \<noteq> [])"
  by (auto simp add: checkValues_def)

lemma checkValues_NoneD: "fst (checkValues p) = None \<Longrightarrow> checkValues p = (None, p)"
  using checkValues_frame [of p] by (cases "checkValues p") simp

lemma mset_MapRange: "mset (MapRange ns xs) = mset xs"
proof (induction ns xs rule: MapRange.induct)
  case (3 n ns x xs)
  let ?ys = "x # xs"
  let ?i = "n mod length ?ys"
  have i: "?i < length ?ys" by simp
  have "mset ?ys = mset (take ?i ?ys @ ?ys ! ?i # drop (Suc ?i) ?ys)"
    using id_take_nth_drop [OF i] by simp
  then have "mset ?ys = add_mset (?ys ! ?i) (mset (take ?i ?ys @ drop (Suc ?i) ?ys))"
    by simp
  with 3 show ?case by (simp add: Let_def)
qed simp_all

lemma MapRange_any_order:
  "mset ys = mset xs \<Longrightarrow> \<exists>ns. MapRange ns xs = ys"
proof (induction ys arbitrary: xs)
  case Nil
  then show ?case by (intro exI [of _ "[]"]) simp
next
  case (Cons y ys)
  then have "y \<in> set xs" by (metis list.set_intros(1) set_mset_mset)
  then obtain i where i: "i < length xs" "xs ! i = y" by (auto simp add: in_set_conv_nth)
  then have xs: "xs = take i xs @ y # drop (Suc i) xs" using id_take_nth_drop by blast
  then have "mset xs = add_mset y (mset (take i xs @ drop (Suc i) xs))"
    by (metis mset.simps(2) mset_append union_mset_add_mset_right)
  with Cons.prems have "mset ys = mset (take i xs @ drop (Suc i) xs)" by simp
  from Cons.IH [OF this] obtain ns where ns: "MapRange ns (take i xs @ drop (Suc i) xs) = ys" ..
  from i obtain x xs' where c: "xs = x # xs'" by (cases xs) auto
  have "MapRange (i # ns) xs = ys'" if "ys' = y # ys" for ys'
    using i ns that unfolding c by (simp add: Let_def)
  then show ?case by blast
qed

lemma filter_same_key:
  "distinct (map fst zs) \<Longrightarrow> k \<in> set zs \<Longrightarrow> filter (\<lambda>x. fst k = fst x) zs = [k]"
proof (induction zs)
  case Nil
  then show ?case by simp
next
  case (Cons z zs)
  show ?case
  proof (cases "k = z")
    case True
    have "filter (\<lambda>x. fst z = fst x) zs = []"
      using Cons.prems(1) by (auto simp add: filter_empty_conv image_iff)
    with True show ?thesis by simp
  next
    case False
    with Cons.prems have k: "k \<in> set zs" by simp
    then have "fst k \<noteq> fst z" using Cons.prems(1) by (auto simp add: image_iff)
    with Cons k show ?thesis by simp
  qed
qed

lemma sort_key_entries:
  assumes xs: "mset xs = mset m" and m: "distinct (map fst m)"
    and ys: "sorted (map fst ys)" "distinct (map fst ys)" and eq: "map_of ys = map_of m"
  shows "sort_key fst xs = ys"
proof (rule properties_for_sort_key)
  have "set ys = set m"
    using ys(2) m eq by (simp add: map_of_inject_set)
  moreover have "distinct ys" "distinct m"
    using ys(2) m by (simp_all add: distinct_map)
  ultimately have "mset ys = mset m"
    by (simp add: set_eq_iff_mset_eq_distinct)
  with xs show mset: "mset ys = mset xs" by simp
  have "mset (map fst xs) = mset (map fst m)" using xs by (metis mset_map)
  then have dx: "distinct (map fst xs)" using m by (metis mset_eq_imp_distinct_iff)
  show "filter (\<lambda>x. fst k = fst x) ys = filter (\<lambda>x. fst k = fst x) xs" if "k \<in> set ys" for k
  proof -
    from that mset have "k \<in> set xs" by (metis set_mset_mset)
    with dx that ys(2) show ?thesis by (simp add: filter_same_key)
  qed
  show "sorted (map fst ys)" by (fact ys(1))
qed

lemma update_if:
  "(if c then AList.update k v m else m) =
   AList.updates (if c then [k] else []) (if c then [v] else []) m"
  by simp

lemma upds_if:
  "f((if c then [k] else []) [\<mapsto>] (if c then [v] else [])) =
   (\<lambda>x. if x = k \<and> c then Some v else f x)"
  by auto

lemma all_keys_sorted: "sorted all_keys" "distinct all_keys"
  by (simp_all add: all_keys_def)

lemma all_keys_coerce: "k \<in> set all_keys \<Longrightarrow> coerce_utf8 k = k"
  by (auto simp add: all_keys_def)

lemma json_interface_of_outside: "k \<notin> set all_keys \<Longrightarrow> json_interface_of p k = None"
  by (simp add: all_keys_def json_interface_of_def)

lemma map_fst_map_filter:
  "map fst (List.map_filter (\<lambda>k. map_option (\<lambda>v. (k, g v)) (f k)) ks) = filter (\<lambda>k. f k \<noteq> None) ks"
  by (induction ks) (auto split: option.splits)

lemma map_of_map_filter:
  "map_of (List.map_filter (\<lambda>k. map_option (\<lambda>v. (k, g v)) (f k)) ks) =
     (\<lambda>k. if k \<in> set ks then map_option g (f k) else None)"
  by (induction ks) (auto simp add: fun_eq_iff split: option.splits)

lemma map_map_filter:
  "map (\<lambda>(k, v). (h k, g v)) (List.map_filter (\<lambda>k. map_option (Pair k) (f k)) ks) =
     List.map_filter (\<lambda>k. map_option (\<lambda>v. (h k, g v)) (f k)) ks"
  by (induction ks) (auto split: option.splits)

lemma map_filter_cong_keys:
  "(\<And>k. k \<in> set ks \<Longrightarrow> f k = g k) \<Longrightarrow> List.map_filter f ks = List.map_filter g ks"
  by (induction ks) (auto split: option.splits)

lemma packet_entries_props:
  "sorted (map fst (packet_entries p))" "distinct (map fst (packet_entries p))"
  "map_of (packet_entries p) = json_interface_of p"
proof -
  have keys: "map fst (packet_entries p) = filter (\<lambda>k. json_interface_of p k \<noteq> None) all_keys"
    unfolding packet_entries_def using map_fst_map_filter [of "\<lambda>v. v"] by simp
  show "sorted (map fst (packet_entries p))" "distinct (map fst (packet_entries p))"
    unfolding keys using all_keys_sorted by (simp_all add: sorted_wrt_filter)
  show "map_of (packet_entries p) = json_interface_of p"
    unfolding packet_entries_def using map_of_map_filter [of "\<lambda>v. v" "json_interface_of p" all_keys]
    by (auto simp add: fun_eq_iff json_interface_of_outside option.map_ident)
qed

lemma packet_members_entries:
  "map (\<lambda>(k, v). (coerce_utf8 k, marshal_iface v)) (packet_entries p) = packet_members p"
  unfolding packet_entries_def packet_members_def map_map_filter
  by (rule map_filter_cong_keys) (simp add: all_keys_coerce)

lemma Marshal_entries:
  assumes "distinct (map fst m)" and "map_of m = json_interface_of p"
  shows "Marshal choices m = Inr (JObject (packet_members p))"
proof -
  have "sort_key fst (MapRange choices m) = packet_entries p"
    using assms by (intro sort_key_entries [of _ m]) (simp_all add: mset_MapRange packet_entries_props)
  then show ?thesis
    by (simp add: Marshal_def packet_members_entries)
qed

lemma MessageAsJSONPacket_valid:
  assumes "fst (checkValues p) = None"
  shows "MessageAsJSONPacket env p = (Inr (JObject (packet_members p)), p)"
proof -
  have c: "checkValues p = (None, p)" using assms by (rule checkValues_NoneD)
  obtain m where m: "MessageAsJSONPacket env p = (Marshal (MapOrder env) m, p)"
    and d: "distinct (map fst m)" and f: "map_of m = json_interface_of p"
  proof
    let ?m = "AList.updates (if customHeaders p \<noteq> [] then [''Headers''] else [])
                (if customHeaders p \<noteq> [] then [IHeaders (customHeaders p)] else [])
             (AList.updates (if attachments p \<noteq> [] then [''Attachments''] else [])
                (if attachments p \<noteq> [] then [IAttachments (attachments p)] else [])
             (AList.updates (if TextBody p \<noteq> [] then [''TextBody''] else [])
                (if TextBody p \<noteq> [] then [IString (TextBody p)] else [])
             (AList.updates (if HTMLBody p \<noteq> [] then [''HtmlBody''] else [])
                (if HTMLBody p \<noteq> [] then [IString (HTMLBody p)] else [])
             (AList.updates (if Tag p \<noteq> [] then [''Tag''] else [])
                (if Tag p \<noteq> [] then [IString (Tag p)] else [])
             (AList.updates (if BCC p \<noteq> [] then [''Bcc''] else [])
                (if BCC p \<noteq> [] then [IString (BCC p)] else [])
             (AList.updates (if CC p \<noteq> [] then [''Cc''] else [])
                (if CC p \<noteq> [] then [IString (CC p)] else [])
             (AList.updates (if ReplyTo p \<noteq> [] then [''ReplyTo''] else [])
                (if ReplyTo p \<noteq> [] then [IString (ReplyTo p)] else [])
                [(''From'', IString (Sender p)), (''To'', IString (To p)),
                 (''Subject'', IString (Subject p))])))))))"
    show "MessageAsJSONPacket env p = (Marshal (MapOrder env) ?m, p)"
      unfolding MessageAsJSONPacket_def c prod.case option.case update_if Let_def
      by (simp only: length_greater_0_conv)
    show "distinct (map fst ?m)"
      by (intro distinct_updates) simp
    show "map_of ?m = json_interface_of p"
      unfolding updates_conv' upds_if
      by (rule ext) (simp add: json_interface_of_def)
  qed
  from d f show ?thesis unfolding m by (simp add: Marshal_entries)
qed

lemma MessageAsJSONPacket_invalid:
  "fst (checkValues p) = Some err \<Longrightarrow> MessageAsJSONPacket env p = (Inl err, p)"
  using checkValues_frame [of p]
  by (cases "checkValues p") (simp add: MessageAsJSONPacket_def)

lemma packet_members_keys:
  "map fst (packet_members p) = filter (\<lambda>k. json_interface_of p k \<noteq> None) all_keys"
  unfolding packet_members_def by (rule map_fst_map_filter)

lemma packet_members_distinct: "distinct (map fst (packet_members p))"
  unfolding packet_members_keys using all_keys_sorted by simp

lemma packet_members_lookup:
  "map_of (packet_members p) k = map_option marshal_iface (json_interface_of p k)"
  unfolding packet_members_def map_of_map_filter
  by (simp add: json_interface_of_outside)

lemma ValidString_coerce: "ValidString s \<Longrightarrow> coerce_utf8 s = s"
  by (induction s rule: coerce_utf8.induct) (auto split: nat.splits)

lemma ascii_rune_size: "of_char c < (0x80::nat) \<Longrightarrow> rune_size (c # s) = 1"
  by simp

lemma ascii_ValidString: "\<forall>c \<in> set s. of_char c < (0x80::nat) \<Longrightarrow> ValidString s"
  by (induction s) (simp_all del: rune_size.simps add: ascii_rune_size)

lemma whitespace_only_ValidString: "whitespace_only s \<Longrightarrow> ValidString s"
  by (rule ascii_ValidString) (auto simp add: whitespace_only_def)

lemma example_mail_fields:
  "Sender example_mail = ''a@x.com''" "To example_mail = ''b@x.com''"
  "Subject example_mail = ''Hi''" "TextBody example_mail = ''Hello''"
  "ReplyTo example_mail = []" "CC example_mail = []" "BCC example_mail = []"
  "Tag example_mail = []" "HTMLBody example_mail = []"
  "attachments example_mail = []" "customHeaders example_mail = []"
  "apiKey example_mail = ''1234567''"
  by (simp_all add: example_mail_def CreatePMMail_def)

lemma example_mail_valid: "fst (checkValues example_mail) = None"
  by (simp add: checkValues_None_iff example_mail_fields)

lemma example_mail_members:
  "packet_members example_mail =
     [(''From'', JString ''a@x.com''), (''Subject'', JString ''Hi''),
      (''TextBody'', JString ''Hello''), (''To'', JString ''b@x.com'')]"
  by (simp add: packet_members_def all_keys_def json_interface_of_def example_mail_fields)

lemma Send_invalid:
  "fst (checkValues p) = Some err \<Longrightarrow> Send env p = ((None, Some err), p, [])"
  by (simp add: Send_def MessageAsJSONPacket_invalid)

lemma Send_transport_error:
  "fst (checkValues p) = None \<Longrightarrow> Do env (request_of p) = Inl err \<Longrightarrow>
   Send env p = ((None, Some err), p, [DoEv (request_of p)])"
  by (simp add: Send_def MessageAsJSONPacket_valid request_of_def)

lemma Send_response:
  assumes "fst (checkValues p) = None" and "Do env (request_of p) = Inr response"
  shows "Send env p =
     (if StatusCode response = 401 then
        ((None, Some (Errorf ''[Postmark] HTTP error %d : Missing headers'' [401])), p,
         [DoEv (request_of p), BodyCloseEv])
      else if StatusCode response = 404 then
        ((None, Some (Errorf ''[Postmark] HTTP error %d : Page not found'' [404])), p,
         [DoEv (request_of p), BodyCloseEv])
      else if StatusCode response = 422 then
        ((None, Some (Errorf ''[Postmark] HTTP error %d : Bad JSON'' [422])), p,
         [DoEv (request_of p), BodyCloseEv])
      else if StatusCode response = 500 then
        ((None, Some (Errorf ''[Postmark] HTTP error %d : Server error'' [500])), p,
         [DoEv (request_of p), BodyCloseEv])
      else
        (case response_Body response of
           Inl err \<Rightarrow> ((None, Some err), p, [DoEv (request_of p), CopyEv, BodyCloseEv])
         | Inr body \<Rightarrow>
             ((Some (snd (Unmarshal env body Reply_zero)),
               if ErrorCode (snd (Unmarshal env body Reply_zero)) \<noteq> 0
               then Some (Errorf ''Error Code: %d'' [ErrorCode (snd (Unmarshal env body Reply_zero))])
               else None),
              p, [DoEv (request_of p), CopyEv, BodyCloseEv])))"
proof -
  have packet: "MessageAsJSONPacket env p = (Inr (request_Body (request_of p)), p)"
    using assms(1) by (simp add: MessageAsJSONPacket_valid request_of_def)
  have built: "\<lparr>request_Method = ''POST'', request_URL = POSTMARK_URL,
      request_HeaderSets =
        [(''Accept'', ''application/json''),
         (''Content-Type'', ''application/json''),
         (''X-Postmark-Server-Token'', apiKey p)] @
        map (\<lambda>h. (header_Name h, header_Value h)) (customHeaders p),
      request_Body = request_Body (request_of p)\<rparr> = request_of p"
    by (simp add: request_of_def)
  show ?thesis
    unfolding Send_def packet prod.case sum.case built Let_def
    using assms(2) by (simp split: sum.splits)
qed

lemma Send_trace_request:
  assumes "DoEv request \<in> set (snd (snd (Send env p)))"
  shows "fst (checkValues p) = None \<and> request = request_of p"
proof (cases "fst (checkValues p)")
  case (Some err)
  with assms show ?thesis by (simp add: Send_invalid)
next
  case None
  show ?thesis
  proof (cases "Do env (request_of p)")
    case (Inl err)
    with None assms show ?thesis by (simp add: Send_transport_error)
  next
    case (Inr response)
    with None assms show ?thesis
      by (simp add: Send_response split: if_splits sum.splits)
  qed
qed


lemma Ext_loop_empty_iff:
  "Ext_loop cs suffix = [] \<longleftrightarrow> CHR ''.'' \<notin> set (takeWhile (\<lambda>c. c \<noteq> CHR ''/'') cs)"
  by (induction cs arbitrary: suffix) auto

lemma Ext_empty_iff:
  "Ext path = [] \<longleftrightarrow> CHR ''.'' \<notin> set (takeWhile (\<lambda>c. c \<noteq> CHR ''/'') (rev path))"
  by (simp add: Ext_def Ext_loop_empty_iff)

lemma trim_slashes_head: "c \<noteq> CHR ''/'' \<Longrightarrow> trim_slashes (c # cs) = c # cs"
  by (cases cs) simp_all

lemma basename_plain:
  assumes "CHR ''/'' \<notin> set name"
  shows "basename name = name"
proof (cases "rev name")
  case Nil
  then show ?thesis by (simp add: basename_def)
next
  case (Cons c cs)
  then have "set (c # cs) = set name" by (metis set_rev)
  with assms have c: "c \<noteq> CHR ''/''" and cs: "\<forall>x \<in> set cs. x \<noteq> CHR ''/''" by auto
  from cs have "takeWhile (\<lambda>x. x \<noteq> CHR ''/'') cs = cs" by (simp add: takeWhile_eq_all_conv)
  with c Cons have "basename name = rev (c # cs)"
    by (simp add: basename_def trim_slashes_head)
  with Cons show ?thesis by (metis rev_rev_ident)
qed

lemma basename_dir:
  assumes "base \<noteq> []" and "CHR ''/'' \<notin> set base"
  shows "basename (dir @ CHR ''/'' # base) = base"
proof -
  from assms(1) obtain c cs where r: "rev base = c # cs" by (cases "rev base") auto
  then have "set (c # cs) = set base" by (metis set_rev)
  with assms(2) have c: "c \<noteq> CHR ''/''" and cs: "\<forall>x \<in> set cs. x \<noteq> CHR ''/''" by auto
  have "rev (dir @ CHR ''/'' # base) = c # (cs @ CHR ''/'' # rev dir)"
    using r by simp
  moreover have "takeWhile (\<lambda>x. x \<noteq> CHR ''/'') (cs @ CHR ''/'' # rev dir) = cs"
    using cs by (simp add: takeWhile_tail takeWhile_eq_all_conv)
  ultimately have "basename (dir @ CHR ''/'' # base) = rev (c # cs)"
    using c by (simp add: basename_def trim_slashes_head)
  with r show ?thesis by (metis rev_rev_ident)
qed

lemma os_Stat_Inr:
  "os_Stat env name = Inr info \<longleftrightarrow>
     (\<exists>bytes. Stat env name = Inr bytes \<and>
        info = \<lparr>fileinfo_Name = basename name, fileinfo_Size = bytes\<rparr>)"
  by (auto simp add: os_Stat_def split: sum.splits)

lemma os_Stat_Inl: "os_Stat env name = Inl err \<longleftrightarrow> Stat env name = Inl err"
  by (simp add: os_Stat_def split: sum.splits)

lemma AddAttachment_Stat_error:
  "os_Stat env fileName = Inl err \<Longrightarrow>
   AddAttachment env fileName p = (Some err, p, [StatEv fileName])"
  by (simp add: AddAttachment_def)

lemma AddAttachment_too_big:
  "os_Stat env fileName = Inr info \<Longrightarrow> fileinfo_Size info > 10000000 \<Longrightarrow>
   AddAttachment env fileName p =
     (Some (Errorf ''FileName size %d exceeds 10MB limit.'' [fileinfo_Size info]), p,
      [StatEv fileName])"
  by (simp add: AddAttachment_def)

lemma AddAttachment_Open_error:
  "os_Stat env fileName = Inr info \<Longrightarrow> \<not> fileinfo_Size info > 10000000 \<Longrightarrow>
   Open env fileName = Inl err \<Longrightarrow>
   AddAttachment env fileName p = (Some err, p, [StatEv fileName, OpenEv fileName])"
  by (simp add: AddAttachment_def)

lemma AddAttachment_ReadAll_error:
  "os_Stat env fileName = Inr info \<Longrightarrow> \<not> fileinfo_Size info > 10000000 \<Longrightarrow>
   Open env fileName = Inr handle \<Longrightarrow> ReadAll env handle = Inl err \<Longrightarrow>
   AddAttachment env fileName p =
     (Some err, p, [StatEv fileName, OpenEv fileName, ReadAllEv handle, CloseEv handle])"
  by (simp add: AddAttachment_def)

lemma AddAttachment_success:
  "os_Stat env fileName = Inr info \<Longrightarrow> \<not> fileinfo_Size info > 10000000 \<Longrightarrow>
   Open env fileName = Inr handle \<Longrightarrow> ReadAll env handle = Inr content \<Longrightarrow>
   AddAttachment env fileName p =
     (None,
      p\<lparr>attachments := attachments p @
          [\<lparr>attachment_Name = fileinfo_Name info,
            attachment_Content = EncodeToString content,
            attachment_ContentType =
              (if TypeByExtension env (Ext fileName) = [] then ''application/octet-stream''
               else TypeByExtension env (Ext fileName))\<rparr>]\<rparr>,
      [StatEv fileName, OpenEv fileName, ReadAllEv handle, CloseEv handle])"
  by (simp add: AddAttachment_def Let_def)

lemma AddAttachment_NoneD:
  assumes "fst (AddAttachment env fileName p) = None"
  obtains info handle content where
    "os_Stat env fileName = Inr info" "\<not> fileinfo_Size info > 10000000"
    "Open env fileName = Inr handle" "ReadAll env handle = Inr content"
  using assms
  by (auto simp add: AddAttachment_def Let_def split: sum.splits if_splits)

lemma sextet_encodeStd: "i < 64 \<Longrightarrow> sextet (encodeStd ! i) = Some i"
proof -
  assume i: "i < 64"
  have "map sextet encodeStd = map Some [0..<64]"
    by (simp add: encodeStd_def sextet_def upt_rec)
  moreover have "length encodeStd = 64" by (simp add: encodeStd_def)
  ultimately have "sextet (encodeStd ! i) = map Some [0..<64] ! i"
    using i by (metis nth_map)
  then show ?thesis using i by simp
qed

lemma encodeStd_not_pad: "i < 64 \<Longrightarrow> encodeStd ! i \<noteq> CHR ''=''"
  using sextet_encodeStd [of i] by (auto simp add: sextet_def)

lemma of_char_less: "of_char (c::char) < (256::nat)"
  by (metis of_char_mod_256 mod_less_divisor zero_less_numeral)

lemma mod_digit: "r < n \<Longrightarrow> (q * n + r) mod n = (r::nat)"
  by simp

lemma digits:
  fixes a1 a0 b1 b0 c1 c0 :: nat
  assumes "a0 < 4" "b1 < 16" "b0 < 16" "c1 < 4" "c0 < 64"
  defines "val \<equiv> (a1 * 4 + a0) * 65536 + (b1 * 16 + b0) * 256 + (c1 * 64 + c0)"
  shows "val div 262144 = a1"
    and "val div 4096 mod 64 = a0 * 16 + b1"
    and "val div 64 mod 64 = b0 * 4 + c1"
    and "val mod 64 = c0"
proof -
  define q where "q = a1 * 64 + (a0 * 16 + b1)"
  define r where "r = q * 64 + (b0 * 4 + c1)"
  show "val div 262144 = a1"
    using assms unfolding val_def by (intro div_nat_eqI) simp_all
  have "val div 4096 = a1 * 64 + (a0 * 16 + b1)"
    using assms unfolding val_def by (intro div_nat_eqI) simp_all
  moreover have "a0 * 16 + b1 < 64" using assms by simp
  ultimately show "val div 4096 mod 64 = a0 * 16 + b1"
    by (simp only: mod_digit)
  have "val div 64 = q * 64 + (b0 * 4 + c1)"
    using assms unfolding val_def q_def by (intro div_nat_eqI) simp_all
  moreover have "b0 * 4 + c1 < 64" using assms by simp
  ultimately show "val div 64 mod 64 = b0 * 4 + c1"
    by (simp only: mod_digit)
  have "val = r * 64 + c0"
    unfolding val_def r_def q_def by simp
  then show "val mod 64 = c0"
    using assms(5) by (simp only: mod_digit)
qed

lemma quantum:
  fixes A B C val :: nat
  assumes "A < 256" "B < 256" "C < 256" and val: "val = A * 65536 + B * 256 + C"
  shows "(val div 262144 mod 64) * 4 + (val div 4096 mod 64) div 16 = A"
    and "(val div 4096 mod 64) mod 16 * 16 + (val div 64 mod 64) div 4 = B"
    and "(val div 64 mod 64) mod 4 * 64 + val mod 64 = C"
    and "C = 0 \<Longrightarrow> (val div 64 mod 64) mod 4 = 0"
    and "B = 0 \<Longrightarrow> C = 0 \<Longrightarrow> (val div 4096 mod 64) mod 16 = 0"
proof -
  have v: "val = (A div 4 * 4 + A mod 4) * 65536 + (B div 16 * 16 + B mod 16) * 256 +
             (C div 64 * 64 + C mod 64)"
    unfolding val by simp
  have bounds: "A mod 4 < 4" "B div 16 < 16" "B mod 16 < 16" "C div 64 < 4" "C mod 64 < 64"
    using assms(2,3) by simp_all
  note d = digits [OF bounds, of "A div 4", folded v]
  have a1: "A div 4 < 64" using assms(1) by simp
  show "(val div 262144 mod 64) * 4 + (val div 4096 mod 64) div 16 = A"
    unfolding d using a1 bounds by simp
  show "(val div 4096 mod 64) mod 16 * 16 + (val div 64 mod 64) div 4 = B"
    unfolding d using bounds by simp
  show "(val div 64 mod 64) mod 4 * 64 + val mod 64 = C"
    unfolding d using bounds by simp
  show "(val div 64 mod 64) mod 4 = 0" if "C = 0"
    unfolding d using that by simp
  show "(val div 4096 mod 64) mod 16 = 0" if "B = 0" "C = 0"
    unfolding d using that by simp
qed

lemma decode_quantum:
  assumes "x < 64" "y < 64" "z < 64" "w < 64"
  shows "base64_decode (encodeStd ! x # encodeStd ! y # encodeStd ! z # encodeStd ! w # rest) =
           map_option
             (\<lambda>bytes. char_of (x * 4 + y div 16) # char_of (y mod 16 * 16 + z div 4) #
                       char_of (z mod 4 * 64 + w) # bytes)
             (base64_decode rest)"
  using assms by (simp add: sextet_encodeStd encodeStd_not_pad)

lemma decode_two:
  assumes "x < 64" "y < 64" "z < 64" "z mod 4 = 0"
  shows "base64_decode [encodeStd ! x, encodeStd ! y, encodeStd ! z, CHR ''=''] =
           Some [char_of (x * 4 + y div 16), char_of (y mod 16 * 16 + z div 4)]"
  using assms by (simp add: sextet_encodeStd encodeStd_not_pad)

lemma decode_one:
  assumes "x < 64" "y < 64" "y mod 16 = 0"
  shows "base64_decode [encodeStd ! x, encodeStd ! y, CHR ''='', CHR ''=''] =
           Some [char_of (x * 4 + y div 16)]"
  using assms by (simp add: sextet_encodeStd encodeStd_not_pad)

lemma char_of_of_char_nat: "char_of (of_char c :: nat) = c"
  by simp

lemma base64_roundtrip: "base64_decode (EncodeToString src) = Some src"
proof (induction src rule: EncodeToString.induct)
  case (1 a b c src)
  define val :: nat where "val = of_char a * 65536 + of_char b * 256 + of_char c"
  note q = quantum [OF of_char_less of_char_less of_char_less val_def]
  have "EncodeToString (a # b # c # src) =
          encodeStd ! (val div 262144 mod 64) # encodeStd ! (val div 4096 mod 64) #
          encodeStd ! (val div 64 mod 64) # encodeStd ! (val mod 64) # EncodeToString src"
    by (simp only: EncodeToString.simps Let_def val_def)
  then show ?case
    by (simp only: decode_quantum mod_less_divisor zero_less_numeral q 1 char_of_of_char_nat
          option.map)
next
  case (2 a b)
  define val :: nat where "val = of_char a * 65536 + of_char b * 256"
  have v: "val = of_char a * 65536 + of_char b * 256 + 0" by (simp add: val_def)
  have z: "(0::nat) < 256" by simp
  note q = quantum [OF of_char_less of_char_less z v]
  have "EncodeToString [a, b] =
          [encodeStd ! (val div 262144 mod 64), encodeStd ! (val div 4096 mod 64),
           encodeStd ! (val div 64 mod 64), CHR ''='']"
    by (simp only: EncodeToString.simps Let_def val_def)
  then show ?case
    by (simp only: decode_two mod_less_divisor zero_less_numeral q char_of_of_char_nat)
next
  case (3 a)
  define val :: nat where "val = of_char a * 65536"
  have v: "val = of_char a * 65536 + 0 * 256 + 0" by (simp add: val_def)
  have z: "(0::nat) < 256" by simp
  note q = quantum [OF of_char_less z z v]
  have "EncodeToString [a] =
          [encodeStd ! (val div 262144 mod 64), encodeStd ! (val div 4096 mod 64),
           CHR ''='', CHR ''='']"
    by (simp only: EncodeToString.simps Let_def val_def)
  then show ?case
    by (simp only: decode_one mod_less_divisor zero_less_numeral q char_of_of_char_nat)
next
  case 4
  show ?case by simp
qed

lemma EncodeToString_vectors:
  "EncodeToString [] = []" "EncodeToString ''f'' = ''Zg==''" "EncodeToString ''fo'' = ''Zm8=''"
  "EncodeToString ''foo'' = ''Zm9v''" "EncodeToString ''foob'' = ''Zm9vYg==''"
  "EncodeToString ''fooba'' = ''Zm9vYmE=''" "EncodeToString ''foobar'' = ''Zm9vYmFy''"
  "EncodeToString ''hi'' = ''aGk=''" "EncodeToString [CHR 0x00, CHR 0xFF, CHR 0x10] = ''AP8Q''"
  by (simp_all add: encodeStd_def)

subsection \<open>The mocked host\<close>

lemma mock_Stat:
  "os_Stat (mock_env s b) ''big.bin'' = Inr \<lparr>fileinfo_Name = ''big.bin'', fileinfo_Size = 10000001\<rparr>"
  "os_Stat (mock_env s b) ''docs/report.txt'' = Inr \<lparr>fileinfo_Name = ''report.txt'', fileinfo_Size = 2\<rparr>"
  "os_Stat (mock_env s b) ''dir.d/README'' = Inr \<lparr>fileinfo_Name = ''README'', fileinfo_Size = 6\<rparr>"
  "os_Stat (mock_env s b) ''data.xyz0'' = Inr \<lparr>fileinfo_Name = ''data.xyz0'', fileinfo_Size = 3\<rparr>"
  "os_Stat (mock_env s b) ''locked.txt'' = Inr \<lparr>fileinfo_Name = ''locked.txt'', fileinfo_Size = 2\<rparr>"
  "os_Stat (mock_env s b) ''bad.txt'' = Inr \<lparr>fileinfo_Name = ''bad.txt'', fileinfo_Size = 2\<rparr>"
  "os_Stat (mock_env s b) ''missing.txt'' = Inl (External ''no such file or directory'')"
  by (simp_all add: os_Stat_def basename_def mock_env_def mock_files_def)

lemma mock_Open:
  "Open (mock_env s b) name =
     (if name = ''locked.txt'' then Inl (External ''permission denied'') else Inr name)"
  by (simp add: mock_env_def)

lemma mock_ReadAll:
  "ReadAll (mock_env s b) ''docs/report.txt'' = Inr ''hi''"
  "ReadAll (mock_env s b) ''dir.d/README'' = Inr ''foobar''"
  "ReadAll (mock_env s b) ''data.xyz0'' = Inr [CHR 0x00, CHR 0xFF, CHR 0x10]"
  "ReadAll (mock_env s b) ''bad.txt'' = Inl (External ''input/output error'')"
  by (simp_all add: mock_env_def mock_files_def)

lemma mock_success:
  "fst (AddAttachment (mock_env s b) ''docs/report.txt'' p) = None"
  "fst (AddAttachment (mock_env s b) ''dir.d/README'' p) = None"
  "fst (AddAttachment (mock_env s b) ''data.xyz0'' p) = None"
  by (simp_all add: AddAttachment_success [OF mock_Stat(2)] AddAttachment_success [OF mock_Stat(3)]
        AddAttachment_success [OF mock_Stat(4)] mock_Open mock_ReadAll)

lemma mock_Ext:
  "Ext ''docs/report.txt'' = ''.txt''" "Ext ''dir.d/README'' = []" "Ext ''data.xyz0'' = ''.xyz0''"
  by (simp_all add: Ext_def)

lemma mock_TypeByExtension:
  "TypeByExtension (mock_env s b) ext = (if ext = ''.txt'' then ''text/plain; charset=utf-8'' else [])"
  by (simp add: mock_env_def)

lemma mock_Do:
  "Do (mock_env status body) request = Inr \<lparr>StatusCode = status, response_Body = Inr body\<rparr>"
  by (simp add: mock_env_def)

lemma mock_Unmarshal_env: "Unmarshal (mock_env status body) = mock_Unmarshal"
  by (simp add: mock_env_def)

lemma mock_Send_trace:
  "DoEv (request_of example_mail) \<in> set (snd (snd (Send (mock_env status body) example_mail)))"
  by (simp add: Send_response [OF example_mail_valid mock_Do])

subsection \<open>The keys of the packet\<close>

text \<open>
  Claim C1, as amended. For a message that passes \<open>checkValues\<close>, \<open>MessageAsJSONPacket\<close>
  returns a JSON object with one member for a key, whose keys are \<open>From\<close>, \<open>To\<close> and
  \<open>Subject\<close> and, for each of the eight optional fields, its key exactly when the field is
  a non-empty string or a non-empty list. The three required keys carry the values of
  \<open>Sender\<close>, \<open>To\<close> and \<open>Subject\<close> in which every byte that belongs to no valid UTF-8
  encoding is replaced by U+FFFD; a field that is valid UTF-8 is carried unchanged. An
  optional key that is present carries the value of its field in the same way.
\<close>

theorem MessageAsJSONPacket_keys:
  assumes "fst (checkValues p) = None"
  shows "\<exists>members. fst (MessageAsJSONPacket env p) = Inr (JObject members) \<and>
           distinct (map fst members) \<and>
           set (map fst members) = {''From'', ''To'', ''Subject''}
             \<union> (if ReplyTo p \<noteq> [] then {''ReplyTo''} else {})
             \<union> (if CC p \<noteq> [] then {''Cc''} else {})
             \<union> (if BCC p \<noteq> [] then {''Bcc''} else {})
             \<union> (if Tag p \<noteq> [] then {''Tag''} else {})
             \<union> (if HTMLBody p \<noteq> [] then {''HtmlBody''} else {})
             \<union> (if TextBody p \<noteq> [] then {''TextBody''} else {})
             \<union> (if attachments p \<noteq> [] then {''Attachments''} else {})
             \<union> (if customHeaders p \<noteq> [] then {''Headers''} else {}) \<and>
           map_of members ''From'' = Some (JString (coerce_utf8 (Sender p))) \<and>
           map_of members ''To'' = Some (JString (coerce_utf8 (To p))) \<and>
           map_of members ''Subject'' = Some (JString (coerce_utf8 (Subject p))) \<and>
           (ValidString (Sender p) \<longrightarrow> map_of members ''From'' = Some (JString (Sender p))) \<and>
           (ValidString (To p) \<longrightarrow> map_of members ''To'' = Some (JString (To p))) \<and>
           (ValidString (Subject p) \<longrightarrow> map_of members ''Subject'' = Some (JString (Subject p))) \<and>
           (ReplyTo p \<noteq> [] \<longrightarrow>
              map_of members ''ReplyTo'' = Some (JString (coerce_utf8 (ReplyTo p)))) \<and>
           (CC p \<noteq> [] \<longrightarrow> map_of members ''Cc'' = Some (JString (coerce_utf8 (CC p)))) \<and>
           (BCC p \<noteq> [] \<longrightarrow> map_of members ''Bcc'' = Some (JString (coerce_utf8 (BCC p)))) \<and>
           (Tag p \<noteq> [] \<longrightarrow> map_of members ''Tag'' = Some (JString (coerce_utf8 (Tag p)))) \<and>
           (HTMLBody p \<noteq> [] \<longrightarrow>
              map_of members ''HtmlBody'' = Some (JString (coerce_utf8 (HTMLBody p)))) \<and>
           (TextBody p \<noteq> [] \<longrightarrow>
              map_of members ''TextBody'' = Some (JString (coerce_utf8 (TextBody p)))) \<and>
           (attachments p \<noteq> [] \<longrightarrow>
              map_of members ''Attachments'' =
                Some (JArray (map marshal_attachment (attachments p)))) \<and>
           (customHeaders p \<noteq> [] \<longrightarrow>
              map_of members ''Headers'' = Some (JArray (map marshal_header (customHeaders p))))"
proof -
  let ?ms = "packet_members p"
  let ?keys = "{''From'', ''To'', ''Subject''}
             \<union> (if ReplyTo p \<noteq> [] then {''ReplyTo''} else {})
             \<union> (if CC p \<noteq> [] then {''Cc''} else {})
             \<union> (if BCC p \<noteq> [] then {''Bcc''} else {})
             \<union> (if Tag p \<noteq> [] then {''Tag''} else {})
             \<union> (if HTMLBody p \<noteq> [] then {''HtmlBody''} else {})
             \<union> (if TextBody p \<noteq> [] then {''TextBody''} else {})
             \<union> (if attachments p \<noteq> [] then {''Attachments''} else {})
             \<union> (if customHeaders p \<noteq> [] then {''Headers''} else {})"
  have packet: "fst (MessageAsJSONPacket env p) = Inr (JObject ?ms)"
    using assms by (simp add: MessageAsJSONPacket_valid)
  have dist: "distinct (map fst ?ms)"
    by (rule packet_members_distinct)
  have required: "map_of ?ms ''From'' = Some (JString (coerce_utf8 (Sender p)))"
          "map_of ?ms ''To'' = Some (JString (coerce_utf8 (To p)))"
          "map_of ?ms ''Subject'' = Some (JString (coerce_utf8 (Subject p)))"
    by (simp_all add: packet_members_lookup json_interface_of_def)
  have verbatim:
    "ValidString (Sender p) \<longrightarrow> map_of ?ms ''From'' = Some (JString (Sender p))"
    "ValidString (To p) \<longrightarrow> map_of ?ms ''To'' = Some (JString (To p))"
    "ValidString (Subject p) \<longrightarrow> map_of ?ms ''Subject'' = Some (JString (Subject p))"
    by (simp_all add: required ValidString_coerce)
  have optional:
    "ReplyTo p \<noteq> [] \<longrightarrow> map_of ?ms ''ReplyTo'' = Some (JString (coerce_utf8 (ReplyTo p)))"
    "CC p \<noteq> [] \<longrightarrow> map_of ?ms ''Cc'' = Some (JString (coerce_utf8 (CC p)))"
    "BCC p \<noteq> [] \<longrightarrow> map_of ?ms ''Bcc'' = Some (JString (coerce_utf8 (BCC p)))"
    "Tag p \<noteq> [] \<longrightarrow> map_of ?ms ''Tag'' = Some (JString (coerce_utf8 (Tag p)))"
    "HTMLBody p \<noteq> [] \<longrightarrow> map_of ?ms ''HtmlBody'' = Some (JString (coerce_utf8 (HTMLBody p)))"
    "TextBody p \<noteq> [] \<longrightarrow> map_of ?ms ''TextBody'' = Some (JString (coerce_utf8 (TextBody p)))"
    "attachments p \<noteq> [] \<longrightarrow>
       map_of ?ms ''Attachments'' = Some (JArray (map marshal_attachment (attachments p)))"
    "customHeaders p \<noteq> [] \<longrightarrow>
       map_of ?ms ''Headers'' = Some (JArray (map marshal_header (customHeaders p)))"
    by (simp_all add: packet_members_lookup json_interface_of_def)
  have "k \<in> set (map fst ?ms) \<longleftrightarrow> k \<in> ?keys" for k
    unfolding packet_members_keys by (auto simp add: all_keys_def json_interface_of_def)
  then have keys: "set (map fst ?ms) = ?keys"
    by blast
  from packet dist keys required verbatim optional show ?thesis
    by (intro exI [of _ ?ms] conjI)
qed

theorem MessageAsJSONPacket_keys_witness:
  "fst (checkValues example_mail) = None \<and> ValidString ''a@x.com'' \<and>
   (\<exists>members. fst (MessageAsJSONPacket (mock_env 200 []) example_mail) = Inr (JObject members) \<and>
      set (map fst members) = {''From'', ''To'', ''Subject'', ''TextBody''} \<and>
      map_of members ''From'' = Some (JString ''a@x.com'') \<and>
      map_of members ''To'' = Some (JString ''b@x.com'') \<and>
      map_of members ''Subject'' = Some (JString ''Hi'') \<and>
      map_of members ''TextBody'' = Some (JString ''Hello''))"
proof -
  have v: "ValidString ''a@x.com''" "ValidString ''b@x.com''" "ValidString ''Hi''"
    "coerce_utf8 ''Hello'' = ''Hello''"
    by simp_all
  show ?thesis
    using MessageAsJSONPacket_keys [OF example_mail_valid, of "mock_env 200 []"] example_mail_valid v
    by (auto simp add: example_mail_fields)
qed

theorem MessageAsJSONPacket_verbatim_counterexample:
  "fst (checkValues (example_mail\<lparr>Sender := [CHR 0xFF]\<rparr>)) = None \<and>
   fst (MessageAsJSONPacket (mock_env 200 []) (example_mail\<lparr>Sender := [CHR 0xFF]\<rparr>)) =
     Inr (JObject [(''From'', JString [CHR 0xEF, CHR 0xBF, CHR 0xBD]), (''Subject'', JString ''Hi''),
                   (''TextBody'', JString ''Hello''), (''To'', JString ''b@x.com'')]) \<and>
   JString [CHR 0xEF, CHR 0xBF, CHR 0xBD] \<noteq> JString (Sender (example_mail\<lparr>Sender := [CHR 0xFF]\<rparr>))"
proof -
  have v: "fst (checkValues (example_mail\<lparr>Sender := [CHR 0xFF]\<rparr>)) = None"
    by (simp add: checkValues_None_iff example_mail_fields)
  have "packet_members (example_mail\<lparr>Sender := [CHR 0xFF]\<rparr>) =
      [(''From'', JString [CHR 0xEF, CHR 0xBF, CHR 0xBD]), (''Subject'', JString ''Hi''),
       (''TextBody'', JString ''Hello''), (''To'', JString ''b@x.com'')]"
    by (simp add: packet_members_def all_keys_def json_interface_of_def example_mail_fields)
  with v show ?thesis
    by (simp add: MessageAsJSONPacket_valid)
qed

subsection \<open>Validation stops at the first missing field\<close>

text \<open>
  Claim C2. When the sender, the recipient, the subject or both bodies are empty,
  \<open>checkValues\<close> returns the error of the first condition that fails, in the order sender,
  recipient, subject, body, and no other; \<open>MessageAsJSONPacket\<close> returns that error and no
  packet, and \<open>Send\<close> returns that error and calls neither the HTTP client nor anything
  else: its list of events is empty.
\<close>

theorem validation_first_failure:
  assumes "Sender p = [] \<or> To p = [] \<or> Subject p = [] \<or> (HTMLBody p = [] \<and> TextBody p = [])"
  shows "let err =
           (if Sender p = [] then
              Errorf ''Cannot send e-mail without a sender (.Sender field)'' []
            else if To p = [] then
              Errorf ''Cannot send e-mail without recipient (.To field)'' []
            else if Subject p = [] then
              Errorf ''Cannot send e-mail without a subject (.Subject field)'' []
            else Errorf ''Cannot send email without an HTML body, text body or both'' [])
         in checkValues p = (Some err, p) \<and>
            MessageAsJSONPacket env p = (Inl err, p) \<and>
            Send env p = ((None, Some err), p, [])"
proof -
  define err where "err =
           (if Sender p = [] then
              Errorf ''Cannot send e-mail without a sender (.Sender field)'' []
            else if To p = [] then
              Errorf ''Cannot send e-mail without recipient (.To field)'' []
            else if Subject p = [] then
              Errorf ''Cannot send e-mail without a subject (.Subject field)'' []
            else Errorf ''Cannot send email without an HTML body, text body or both'' [])"
  have c: "checkValues p = (Some err, p)"
    using assms unfolding err_def checkValues_def by auto
  then have "fst (checkValues p) = Some err" by simp
  then have "MessageAsJSONPacket env p = (Inl err, p)" "Send env p = ((None, Some err), p, [])"
    by (simp_all add: MessageAsJSONPacket_invalid Send_invalid)
  with c show ?thesis unfolding err_def Let_def by blast
qed

theorem validation_first_failure_witness:
  "(Sender (CreatePMMail ''1234567'') = [] \<or> To (CreatePMMail ''1234567'') = [] \<or>
    Subject (CreatePMMail ''1234567'') = [] \<or>
    (HTMLBody (CreatePMMail ''1234567'') = [] \<and> TextBody (CreatePMMail ''1234567'') = [])) \<and>
   checkValues (CreatePMMail ''1234567'') =
     (Some (Errorf ''Cannot send e-mail without a sender (.Sender field)'' []),
      CreatePMMail ''1234567'') \<and>
   MessageAsJSONPacket (mock_env 200 []) (CreatePMMail ''1234567'') =
     (Inl (Errorf ''Cannot send e-mail without a sender (.Sender field)'' []),
      CreatePMMail ''1234567'') \<and>
   Send (mock_env 200 []) (CreatePMMail ''1234567'') =
     ((None, Some (Errorf ''Cannot send e-mail without a sender (.Sender field)'' [])),
      CreatePMMail ''1234567'', []) \<and>
   Send (mock_env 200 []) (example_mail\<lparr>TextBody := []\<rparr>) =
     ((None, Some (Errorf ''Cannot send email without an HTML body, text body or both'' [])),
      example_mail\<lparr>TextBody := []\<rparr>, [])"
proof -
  have s: "Sender (CreatePMMail ''1234567'') = []"
    by (simp add: CreatePMMail_def)
  have b: "Sender (example_mail\<lparr>TextBody := []\<rparr>) \<noteq> []" "To (example_mail\<lparr>TextBody := []\<rparr>) \<noteq> []"
     "Subject (example_mail\<lparr>TextBody := []\<rparr>) \<noteq> []"
    "HTMLBody (example_mail\<lparr>TextBody := []\<rparr>) = [] \<and> TextBody (example_mail\<lparr>TextBody := []\<rparr>) = []"
    by (simp_all add: example_mail_fields)
  show ?thesis
    using validation_first_failure [of "CreatePMMail ''1234567''" "mock_env 200 []"]
      validation_first_failure [of "example_mail\<lparr>TextBody := []\<rparr>" "mock_env 200 []"] s b
    by (simp add: Let_def)
qed

subsection \<open>The reply of the service\<close>

text \<open>
  Claim C3, as amended. When \<open>Send\<close> has a response whose status is none of 401, 404, 422
  and 500 and whose body has been read to its end, it hands \<open>json.Unmarshal\<close> the body and
  a zero-valued \<open>Reply\<close>, drops the error of the decoder and returns the \<open>Reply\<close> as the
  decoder leaves it: with a non-zero \<open>ErrorCode\<close> the reply comes together with the error
  \<open>Error Code: %d\<close> of that code, with \<open>ErrorCode\<close> zero it comes with no error. A failed
  decoding therefore never fails the call by itself, and it leaves every field at its
  zero value when the decoder has stored nothing.
\<close>

theorem Send_reply:
  assumes "DoEv request \<in> set (snd (snd (Send env p)))" and "Do env request = Inr response"
    and "StatusCode response \<notin> {401, 404, 422, 500}" and "response_Body response = Inr body"
  shows "(let reply = snd (Unmarshal env body Reply_zero)
          in fst (Send env p) =
               (Some reply,
                if ErrorCode reply \<noteq> 0 then Some (Errorf ''Error Code: %d'' [ErrorCode reply])
                else None)) \<and>
         (\<forall>err. Unmarshal env body Reply_zero = (Some err, Reply_zero) \<longrightarrow>
            fst (Send env p) = (Some Reply_zero, None))"
proof -
  from assms(1) have valid: "fst (checkValues p) = None" and "request = request_of p"
    by (simp_all add: Send_trace_request)
  with assms(2) have "Do env (request_of p) = Inr response" by simp
  with valid assms(3,4) show ?thesis
    by (simp add: Send_response Let_def Reply_zero_def)
qed

theorem Send_reply_witness:
  \<open>fst (Send (mock_env 200 ''{"ErrorCode":300,"Message":"Invalid email"}'') example_mail) =
     (Some (Reply_zero\<lparr>ErrorCode := 300, Message := ''Invalid email''\<rparr>),
      Some (Errorf ''Error Code: %d'' [300])) \<and>
   mock_Unmarshal ''<html>'' Reply_zero = (Some (External ''invalid character''), Reply_zero) \<and>
   fst (Send (mock_env 200 ''<html>'') example_mail) = (Some Reply_zero, None)\<close>
  using Send_reply [OF mock_Send_trace mock_Do, of 200 \<open>''{"ErrorCode":300,"Message":"Invalid email"}''\<close>
                     \<open>''{"ErrorCode":300,"Message":"Invalid email"}''\<close>]
    Send_reply [OF mock_Send_trace mock_Do, of 200 "''<html>''" "''<html>''"]
  by (simp add: mock_Unmarshal_env mock_Unmarshal_def Reply_zero_def Let_def)

theorem Send_decode_failure_counterexample:
  \<open>fst (Unmarshal (mock_env 200 ''{"ErrorCode":300,"Message":5}'')
          ''{"ErrorCode":300,"Message":5}'' Reply_zero) =
     Some (External ''json: cannot unmarshal number into Go struct field Reply.Message of type string'') \<and>
   fst (Send (mock_env 200 ''{"ErrorCode":300,"Message":5}'') example_mail) =
     (Some (Reply_zero\<lparr>ErrorCode := 300\<rparr>), Some (Errorf ''Error Code: %d'' [300])) \<and>
   Reply_zero\<lparr>ErrorCode := 300\<rparr> \<noteq> Reply_zero\<close>
  by (simp add: Send_response [OF example_mail_valid mock_Do] mock_Unmarshal_env
        mock_Unmarshal_def Reply_zero_def)

subsection \<open>The status codes\<close>

text \<open>
  Claim C4. For the response to the request that \<open>Send\<close> issued, the status codes 401,
  404, 422 and 500 give the errors \<open>Missing headers\<close>, \<open>Page not found\<close>, \<open>Bad JSON\<close> and
  \<open>Server error\<close>, each with its status code and with no reply, whatever the body; with
  any other status code the result is that of reading and decoding the body.
\<close>

theorem Send_status_codes:
  assumes "DoEv request \<in> set (snd (snd (Send env p)))" and "Do env request = Inr response"
  shows "(StatusCode response = 401 \<longrightarrow> fst (Send env p) =
            (None, Some (Errorf ''[Postmark] HTTP error %d : Missing headers'' [401]))) \<and>
         (StatusCode response = 404 \<longrightarrow> fst (Send env p) =
            (None, Some (Errorf ''[Postmark] HTTP error %d : Page not found'' [404]))) \<and>
         (StatusCode response = 422 \<longrightarrow> fst (Send env p) =
            (None, Some (Errorf ''[Postmark] HTTP error %d : Bad JSON'' [422]))) \<and>
         (StatusCode response = 500 \<longrightarrow> fst (Send env p) =
            (None, Some (Errorf ''[Postmark] HTTP error %d : Server error'' [500]))) \<and>
         (StatusCode response \<notin> {401, 404, 422, 500} \<longrightarrow> fst (Send env p) =
            (case response_Body response of
               Inl err \<Rightarrow> (None, Some err)
             | Inr body \<Rightarrow>
                 (let reply = snd (Unmarshal env body Reply_zero)
                  in (Some reply,
                      if ErrorCode reply \<noteq> 0 then Some (Errorf ''Error Code: %d'' [ErrorCode reply])
                      else None))))"
proof -
  from assms(1) have valid: "fst (checkValues p) = None" and "request = request_of p"
    by (simp_all add: Send_trace_request)
  with assms(2) have "Do env (request_of p) = Inr response" by simp
  with valid show ?thesis
    by (simp add: Send_response Let_def split: sum.splits)
qed

theorem Send_status_codes_witness:
  \<open>fst (Send (mock_env 401 ''{"ErrorCode":300,"Message":"Invalid email"}'') example_mail) =
     (None, Some (Errorf ''[Postmark] HTTP error %d : Missing headers'' [401])) \<and>
   fst (Send (mock_env 404 []) example_mail) =
     (None, Some (Errorf ''[Postmark] HTTP error %d : Page not found'' [404])) \<and>
   fst (Send (mock_env 422 []) example_mail) =
     (None, Some (Errorf ''[Postmark] HTTP error %d : Bad JSON'' [422])) \<and>
   fst (Send (mock_env 500 []) example_mail) =
     (None, Some (Errorf ''[Postmark] HTTP error %d : Server error'' [500])) \<and>
   fst (Send (mock_env 503 ''Service Unavailable'') example_mail) = (Some Reply_zero, None)\<close>
  using Send_status_codes [OF mock_Send_trace mock_Do, of 401 \<open>''{"ErrorCode":300,"Message":"Invalid email"}''\<close>]
    Send_status_codes [OF mock_Send_trace mock_Do, of 404 "[]"]
    Send_status_codes [OF mock_Send_trace mock_Do, of 422 "[]"]
    Send_status_codes [OF mock_Send_trace mock_Do, of 500 "[]"]
    Send_status_codes [OF mock_Send_trace mock_Do, of 503 "''Service Unavailable''"]
  by (simp add: mock_Unmarshal_env mock_Unmarshal_def Reply_zero_def)

subsection \<open>Files above the size limit\<close>

text \<open>
  Claim C5. For a file whose size is above 10000000 bytes \<open>AddAttachment\<close> returns the
  size-limit error, has called \<open>os.Stat\<close> only (the file is neither opened nor read) and
  leaves the message as it was; if the message is valid and has no attachment, the
  packet built afterwards has no key \<open>Attachments\<close>.
\<close>

theorem AddAttachment_size_limit:
  assumes "os_Stat env fileName = Inr info" and "fileinfo_Size info > 10000000"
  shows "AddAttachment env fileName p =
           (Some (Errorf ''FileName size %d exceeds 10MB limit.'' [fileinfo_Size info]), p,
            [StatEv fileName]) \<and>
         (attachments p = [] \<and> fst (checkValues p) = None \<longrightarrow>
            (\<exists>members. fst (MessageAsJSONPacket env' (fst (snd (AddAttachment env fileName p)))) =
                      Inr (JObject members) \<and>
               ''Attachments'' \<notin> set (map fst members)))"
proof -
  have r: "AddAttachment env fileName p =
           (Some (Errorf ''FileName size %d exceeds 10MB limit.'' [fileinfo_Size info]), p,
            [StatEv fileName])"
    using assms by (rule AddAttachment_too_big)
  have "\<exists>members. fst (MessageAsJSONPacket env' p) = Inr (JObject members) \<and>
          ''Attachments'' \<notin> set (map fst members)"
    if "attachments p = []" "fst (checkValues p) = None"
  proof -
    have "''Attachments'' \<notin> set (map fst (packet_members p))"
      unfolding packet_members_keys using that(1) by (simp add: json_interface_of_def)
    with that(2) show ?thesis by (simp add: MessageAsJSONPacket_valid)
  qed
  with r show ?thesis by simp
qed

theorem AddAttachment_size_limit_witness:
  "os_Stat (mock_env 200 []) ''big.bin'' =
     Inr \<lparr>fileinfo_Name = ''big.bin'', fileinfo_Size = 10000001\<rparr> \<and>
   AddAttachment (mock_env 200 []) ''big.bin'' example_mail =
     (Some (Errorf ''FileName size %d exceeds 10MB limit.'' [10000001]), example_mail,
      [StatEv ''big.bin'']) \<and>
   (\<exists>members. fst (MessageAsJSONPacket (mock_env 200 [])
                     (fst (snd (AddAttachment (mock_env 200 []) ''big.bin'' example_mail)))) =
                 Inr (JObject members) \<and>
      ''Attachments'' \<notin> set (map fst members))"
  using AddAttachment_size_limit [OF mock_Stat(1), of 200 "[]" example_mail "mock_env 200 []"]
    example_mail_valid
  by (auto simp add: example_mail_fields mock_Stat)

subsection \<open>Building the packet changes nothing and does not depend on the runtime\<close>

text \<open>
  Claim C6. \<open>MessageAsJSONPacket\<close> leaves every field of the message as it was, and a
  second call on the message it leaves returns the same result as the first, also when
  the runtime ranges over the map in another order the second time: the same JSON
  document, with the same members in the same order, or the same error.
\<close>

theorem MessageAsJSONPacket_pure:
  "snd (MessageAsJSONPacket env p) = p \<and>
   fst (MessageAsJSONPacket env' (snd (MessageAsJSONPacket env p))) =
     fst (MessageAsJSONPacket env p)"
proof (cases "fst (checkValues p)")
  case None
  then show ?thesis by (simp add: MessageAsJSONPacket_valid)
next
  case (Some err)
  then show ?thesis by (simp add: MessageAsJSONPacket_invalid)
qed

theorem MessageAsJSONPacket_pure_witness:
  "MapRange [2, 0] [(''From'', IString ''a@x.com''), (''To'', IString ''b@x.com''),
                     (''Subject'', IString ''Hi''), (''TextBody'', IString ''Hello'')] =
     [(''Subject'', IString ''Hi''), (''From'', IString ''a@x.com''),
      (''To'', IString ''b@x.com''), (''TextBody'', IString ''Hello'')] \<and>
   fst (MessageAsJSONPacket (mock_env 200 []\<lparr>MapOrder := [2, 0]\<rparr>) example_mail) =
     Inr (JObject [(''From'', JString ''a@x.com''), (''Subject'', JString ''Hi''),
                   (''TextBody'', JString ''Hello''), (''To'', JString ''b@x.com'')]) \<and>
   fst (MessageAsJSONPacket (mock_env 200 [])
         (snd (MessageAsJSONPacket (mock_env 200 []\<lparr>MapOrder := [2, 0]\<rparr>) example_mail))) =
     Inr (JObject [(''From'', JString ''a@x.com''), (''Subject'', JString ''Hi''),
                   (''TextBody'', JString ''Hello''), (''To'', JString ''b@x.com'')]) \<and>
   snd (MessageAsJSONPacket (mock_env 200 []\<lparr>MapOrder := [2, 0]\<rparr>) example_mail) = example_mail"
proof -
  have range: "MapRange [2, 0] [(''From'', IString ''a@x.com''), (''To'', IString ''b@x.com''),
                     (''Subject'', IString ''Hi''), (''TextBody'', IString ''Hello'')] =
     [(''Subject'', IString ''Hi''), (''From'', IString ''a@x.com''),
      (''To'', IString ''b@x.com''), (''TextBody'', IString ''Hello'')]"
    by (simp add: Let_def)
  have first: "fst (MessageAsJSONPacket (mock_env 200 []\<lparr>MapOrder := [2, 0]\<rparr>) example_mail) =
     Inr (JObject [(''From'', JString ''a@x.com''), (''Subject'', JString ''Hi''),
                   (''TextBody'', JString ''Hello''), (''To'', JString ''b@x.com'')])"
    unfolding MessageAsJSONPacket_def checkValues_NoneD [OF example_mail_valid]
    by (simp add: example_mail_fields Marshal_def Let_def mock_env_def)
  note pure = MessageAsJSONPacket_pure [of "mock_env 200 []\<lparr>MapOrder := [2, 0]\<rparr>" example_mail
            "mock_env 200 []"]
  from pure have frame:
    "snd (MessageAsJSONPacket (mock_env 200 []\<lparr>MapOrder := [2, 0]\<rparr>) example_mail) = example_mail"
    by (rule conjunct1)
  from pure have again:
    "fst (MessageAsJSONPacket (mock_env 200 [])
           (snd (MessageAsJSONPacket (mock_env 200 []\<lparr>MapOrder := [2, 0]\<rparr>) example_mail))) =
     fst (MessageAsJSONPacket (mock_env 200 []\<lparr>MapOrder := [2, 0]\<rparr>) example_mail)"
    by (rule conjunct2)
  from range first frame again show ?thesis
    by (simp only: simp_thms)
qed

subsection \<open>Custom headers\<close>



subsection \<open>The content type of an attachment\<close>

text \<open>
  Claim C8. When \<open>AddAttachment\<close> succeeds, the content type of the attachment it appends
  is what the host's table gives for the extension of the file name (\<open>path.Ext\<close>), and
  \<open>application/octet-stream\<close> when the table gives nothing for it; it is never empty. A
  file name whose last element has no dot has the empty extension, for which the table
  of a host has no entry, so that its content type is \<open>application/octet-stream\<close>.
\<close>

theorem AddAttachment_ContentType:
  assumes "fst (AddAttachment env fileName p) = None"
  shows "\<exists>a. attachments (fst (snd (AddAttachment env fileName p))) = attachments p @ [a] \<and>
           attachment_ContentType a =
             (if TypeByExtension env (Ext fileName) = [] then ''application/octet-stream''
              else TypeByExtension env (Ext fileName)) \<and>
           attachment_ContentType a \<noteq> [] \<and>
           (CHR ''.'' \<notin> set (takeWhile (\<lambda>c. c \<noteq> CHR ''/'') (rev fileName)) \<and>
            TypeByExtension env [] = [] \<longrightarrow>
              attachment_ContentType a = ''application/octet-stream'')"
proof -
  from assms obtain info handle content where
    "os_Stat env fileName = Inr info" "\<not> fileinfo_Size info > 10000000"
    "Open env fileName = Inr handle" "ReadAll env handle = Inr content"
    by (rule AddAttachment_NoneD)
  then have "attachments (fst (snd (AddAttachment env fileName p))) = attachments p @
          [\<lparr>attachment_Name = fileinfo_Name info,
            attachment_Content = EncodeToString content,
            attachment_ContentType =
              (if TypeByExtension env (Ext fileName) = [] then ''application/octet-stream''
               else TypeByExtension env (Ext fileName))\<rparr>]"
    by (simp add: AddAttachment_success)
  moreover have "Ext fileName = []"
    if "CHR ''.'' \<notin> set (takeWhile (\<lambda>c. c \<noteq> CHR ''/'') (rev fileName))"
    using that by (simp add: Ext_empty_iff)
  ultimately show ?thesis by auto
qed

theorem AddAttachment_ContentType_witness:
  "fst (AddAttachment (mock_env 200 []) ''docs/report.txt'' example_mail) = None \<and>
   fst (AddAttachment (mock_env 200 []) ''dir.d/README'' example_mail) = None \<and>
   fst (AddAttachment (mock_env 200 []) ''data.xyz0'' example_mail) = None \<and>
   CHR ''.'' \<notin> set (takeWhile (\<lambda>c. c \<noteq> CHR ''/'') (rev ''dir.d/README'')) \<and>
   TypeByExtension (mock_env 200 []) [] = [] \<and>
   (\<exists>a. attachments (fst (snd (AddAttachment (mock_env 200 []) ''docs/report.txt'' example_mail)))
           = [a] \<and> attachment_ContentType a = ''text/plain; charset=utf-8'') \<and>
   (\<exists>a. attachments (fst (snd (AddAttachment (mock_env 200 []) ''dir.d/README'' example_mail)))
           = [a] \<and> attachment_ContentType a = ''application/octet-stream'') \<and>
   (\<exists>a. attachments (fst (snd (AddAttachment (mock_env 200 []) ''data.xyz0'' example_mail)))
           = [a] \<and> attachment_ContentType a = ''application/octet-stream'')"
  using AddAttachment_ContentType [OF mock_success(1), of 200 "[]" example_mail]
    AddAttachment_ContentType [OF mock_success(2), of 200 "[]" example_mail]
    AddAttachment_ContentType [OF mock_success(3), of 200 "[]" example_mail]
  by (auto simp add: mock_success mock_Ext mock_TypeByExtension example_mail_fields)

subsection \<open>Attaching a file changes the message on success only\<close>

text \<open>
  Claim C9. Whenever \<open>AddAttachment\<close> returns an error, the message is unchanged: that is
  so when \<open>os.Stat\<close>, \<open>os.Open\<close> or \<open>ioutil.ReadAll\<close> fails, and the error returned is theirs.
  When all three succeed on a file within the size limit, exactly one attachment is
  appended at the end of the list and no other field changes. Its name is the base name
  of the path: the path itself when it has no slash, and what follows the last slash
  when that is not empty. Its content is the standard base64 encoding of the bytes
  read: reading it as base64 gives these bytes back.
\<close>

theorem AddAttachment_atomic:
  "(fst (AddAttachment env fileName p) \<noteq> None \<longrightarrow> fst (snd (AddAttachment env fileName p)) = p) \<and>
   (\<forall>err. Stat env fileName = Inl err \<longrightarrow> fst (AddAttachment env fileName p) = Some err) \<and>
   (\<forall>bytes err. Stat env fileName = Inr bytes \<and> bytes \<le> 10000000 \<and>
        Open env fileName = Inl err \<longrightarrow> fst (AddAttachment env fileName p) = Some err) \<and>
   (\<forall>bytes handle err. Stat env fileName = Inr bytes \<and> bytes \<le> 10000000 \<and>
        Open env fileName = Inr handle \<and> ReadAll env handle = Inl err \<longrightarrow>
        fst (AddAttachment env fileName p) = Some err) \<and>
   (\<forall>bytes handle content. Stat env fileName = Inr bytes \<and> bytes \<le> 10000000 \<and>
        Open env fileName = Inr handle \<and> ReadAll env handle = Inr content \<longrightarrow>
        fst (AddAttachment env fileName p) = None \<and>
        (\<exists>a. fst (snd (AddAttachment env fileName p)) = p\<lparr>attachments := attachments p @ [a]\<rparr> \<and>
             attachment_Name a = basename fileName \<and>
             (CHR ''/'' \<notin> set fileName \<longrightarrow> attachment_Name a = fileName) \<and>
             (\<forall>dir base. fileName = dir @ CHR ''/'' # base \<and> base \<noteq> [] \<and> CHR ''/'' \<notin> set base \<longrightarrow>
                attachment_Name a = base) \<and>
             attachment_Content a = EncodeToString content \<and>
             base64_decode (attachment_Content a) = Some content)) \<and>
   (fst (AddAttachment env fileName p) = None \<longrightarrow>
      (\<exists>bytes handle content. Stat env fileName = Inr bytes \<and> Open env fileName = Inr handle \<and>
          ReadAll env handle = Inr content))"
proof -
  have unchanged: "fst (snd (AddAttachment env fileName p)) = p"
    if "fst (AddAttachment env fileName p) \<noteq> None"
    using that by (auto simp add: AddAttachment_def Let_def split: sum.splits if_splits)
  have stat: "fst (AddAttachment env fileName p) = Some err" if "Stat env fileName = Inl err" for err
    using that by (simp add: AddAttachment_Stat_error os_Stat_Inl)
  have opn: "fst (AddAttachment env fileName p) = Some err"
    if "Stat env fileName = Inr bytes" "bytes \<le> 10000000" "Open env fileName = Inl err"
    for bytes err
    using that
    by (simp add: AddAttachment_Open_error [of _ _ "\<lparr>fileinfo_Name = basename fileName,
          fileinfo_Size = bytes\<rparr>"] os_Stat_Inr)
  have rd: "fst (AddAttachment env fileName p) = Some err"
    if "Stat env fileName = Inr bytes" "bytes \<le> 10000000"
       "Open env fileName = Inr handle" "ReadAll env handle = Inl err"
    for bytes handle err
    using that
    by (simp add: AddAttachment_ReadAll_error [of _ _ "\<lparr>fileinfo_Name = basename fileName,
          fileinfo_Size = bytes\<rparr>"] os_Stat_Inr)
  have ok: "fst (AddAttachment env fileName p) = None \<and>
        (\<exists>a. fst (snd (AddAttachment env fileName p)) = p\<lparr>attachments := attachments p @ [a]\<rparr> \<and>
             attachment_Name a = basename fileName \<and>
             (CHR ''/'' \<notin> set fileName \<longrightarrow> attachment_Name a = fileName) \<and>
             (\<forall>dir base. fileName = dir @ CHR ''/'' # base \<and> base \<noteq> [] \<and> CHR ''/'' \<notin> set base \<longrightarrow>
                attachment_Name a = base) \<and>
             attachment_Content a = EncodeToString content \<and>
             base64_decode (attachment_Content a) = Some content)"
    if "Stat env fileName = Inr bytes" "bytes \<le> 10000000"
       "Open env fileName = Inr handle" "ReadAll env handle = Inr content"
    for bytes handle content
  proof -
    let ?a = "\<lparr>attachment_Name = basename fileName,
            attachment_Content = EncodeToString content,
            attachment_ContentType =
              (if TypeByExtension env (Ext fileName) = [] then ''application/octet-stream''
               else TypeByExtension env (Ext fileName))\<rparr>"
    have "AddAttachment env fileName p =
       (None, p\<lparr>attachments := attachments p @ [?a]\<rparr>,
        [StatEv fileName, OpenEv fileName, ReadAllEv handle, CloseEv handle])"
      using that
      by (simp add: AddAttachment_success [of _ _ "\<lparr>fileinfo_Name = basename fileName,
            fileinfo_Size = bytes\<rparr>"] os_Stat_Inr)
    then have "fst (AddAttachment env fileName p) = None \<and>
        fst (snd (AddAttachment env fileName p)) = p\<lparr>attachments := attachments p @ [?a]\<rparr> \<and>
        attachment_Name ?a = basename fileName \<and>
        (CHR ''/'' \<notin> set fileName \<longrightarrow> attachment_Name ?a = fileName) \<and>
        (\<forall>dir base. fileName = dir @ CHR ''/'' # base \<and> base \<noteq> [] \<and> CHR ''/'' \<notin> set base \<longrightarrow>
           attachment_Name ?a = base) \<and>
        attachment_Content ?a = EncodeToString content \<and>
        base64_decode (attachment_Content ?a) = Some content"
      by (auto simp add: basename_plain basename_dir base64_roundtrip)
    then show ?thesis by blast
  qed
  have conv: "\<exists>bytes handle content. Stat env fileName = Inr bytes \<and> Open env fileName = Inr handle \<and>
          ReadAll env handle = Inr content" if "fst (AddAttachment env fileName p) = None"
    using that by (auto elim!: AddAttachment_NoneD simp add: os_Stat_Inr)
  from unchanged stat opn rd ok conv show ?thesis by blast
qed

theorem AddAttachment_atomic_witness:
  "AddAttachment (mock_env 200 []) ''missing.txt'' example_mail =
     (Some (External ''no such file or directory''), example_mail, [StatEv ''missing.txt'']) \<and>
   fst (AddAttachment (mock_env 200 []) ''locked.txt'' example_mail) =
     Some (External ''permission denied'') \<and>
   fst (snd (AddAttachment (mock_env 200 []) ''locked.txt'' example_mail)) = example_mail \<and>
   fst (AddAttachment (mock_env 200 []) ''bad.txt'' example_mail) =
     Some (External ''input/output error'') \<and>
   fst (snd (AddAttachment (mock_env 200 []) ''bad.txt'' example_mail)) = example_mail \<and>
   fst (AddAttachment (mock_env 200 []) ''docs/report.txt'' example_mail) = None \<and>
   (\<exists>a. fst (snd (AddAttachment (mock_env 200 []) ''docs/report.txt'' example_mail)) =
           example_mail\<lparr>attachments := [a]\<rparr> \<and>
        attachment_Name a = ''report.txt'' \<and> attachment_Content a = ''aGk='' \<and>
        base64_decode (attachment_Content a) = Some ''hi'') \<and>
   (\<exists>a. fst (snd (AddAttachment (mock_env 200 []) ''dir.d/README'' example_mail)) =
           example_mail\<lparr>attachments := [a]\<rparr> \<and>
        attachment_Name a = ''README'' \<and> attachment_Content a = ''Zm9vYmFy'') \<and>
   (\<exists>a. fst (snd (AddAttachment (mock_env 200 []) ''data.xyz0'' example_mail)) =
           example_mail\<lparr>attachments := [a]\<rparr> \<and>
        attachment_Name a = ''data.xyz0'' \<and> attachment_Content a = ''AP8Q'')"
proof -
  have stat: "Stat (mock_env 200 []) ''missing.txt'' = Inl (External ''no such file or directory'')"
    "Stat (mock_env 200 []) ''locked.txt'' = Inr 2" "Stat (mock_env 200 []) ''bad.txt'' = Inr 2"
    "Stat (mock_env 200 []) ''docs/report.txt'' = Inr 2"
    "Stat (mock_env 200 []) ''dir.d/README'' = Inr 6"
    "Stat (mock_env 200 []) ''data.xyz0'' = Inr 3"
    by (simp_all add: mock_env_def mock_files_def)
  have names: "basename ''docs/report.txt'' = ''report.txt''" "basename ''dir.d/README'' = ''README''"
    "basename ''data.xyz0'' = ''data.xyz0''"
    by (simp_all add: basename_def)
  have miss: "AddAttachment (mock_env 200 []) ''missing.txt'' example_mail =
     (Some (External ''no such file or directory''), example_mail, [StatEv ''missing.txt''])"
    by (simp add: AddAttachment_Stat_error mock_Stat)
  show ?thesis
    using AddAttachment_atomic [of "mock_env 200 []" "''locked.txt''" example_mail]
      AddAttachment_atomic [of "mock_env 200 []" "''bad.txt''" example_mail]
      AddAttachment_atomic [of "mock_env 200 []" "''docs/report.txt''" example_mail]
      AddAttachment_atomic [of "mock_env 200 []" "''dir.d/README''" example_mail]
      AddAttachment_atomic [of "mock_env 200 []" "''data.xyz0''" example_mail]
    by (auto simp add: stat names mock_Open mock_ReadAll EncodeToString_vectors miss
          example_mail_fields simp del: EncodeToString.simps)
qed

subsection \<open>Presence is inequality with the empty string\<close>

text \<open>
  Claim C10. \<open>checkValues\<close> accepts a message exactly when \<open>Sender\<close>, \<open>To\<close> and \<open>Subject\<close> differ
  from the empty string and so does one of the two bodies. A string of white space
  counts as present: a message whose sender, recipient, subject and one body consist
  of white space only passes \<open>checkValues\<close>, and \<open>MessageAsJSONPacket\<close> builds its packet.
\<close>

theorem checkValues_exact_empty:
  "(fst (checkValues p) = None \<longleftrightarrow>
      Sender p \<noteq> [] \<and> To p \<noteq> [] \<and> Subject p \<noteq> [] \<and> (HTMLBody p \<noteq> [] \<or> TextBody p \<noteq> [])) \<and>
   (whitespace_only (Sender p) \<and> whitespace_only (To p) \<and> whitespace_only (Subject p) \<and>
    (whitespace_only (HTMLBody p) \<or> whitespace_only (TextBody p)) \<longrightarrow>
      fst (checkValues p) = None \<and>
      (\<exists>members. fst (MessageAsJSONPacket env p) = Inr (JObject members) \<and>
         map_of members ''From'' = Some (JString (Sender p))))"
proof -
  have "\<exists>members. fst (MessageAsJSONPacket env p) = Inr (JObject members) \<and>
         map_of members ''From'' = Some (JString (Sender p))"
    if "fst (checkValues p) = None" "whitespace_only (Sender p)"
    using that
    by (simp add: MessageAsJSONPacket_valid packet_members_lookup json_interface_of_def
          ValidString_coerce whitespace_only_ValidString)
  moreover have "s \<noteq> []" if "whitespace_only s" for s
    using that by (simp add: whitespace_only_def)
  ultimately show ?thesis
    by (auto simp add: checkValues_None_iff)
qed

theorem checkValues_exact_empty_witness:
  "whitespace_only '' '' \<and>
   fst (checkValues ((CreatePMMail ''1234567'')
       \<lparr>Sender := '' '', To := '' '', Subject := '' '', TextBody := '' ''\<rparr>)) = None \<and>
   (\<exists>members. fst (MessageAsJSONPacket (mock_env 200 []) ((CreatePMMail ''1234567'')
       \<lparr>Sender := '' '', To := '' '', Subject := '' '', TextBody := '' ''\<rparr>)) = Inr (JObject members) \<and>
      map_of members ''From'' = Some (JString '' ''))"
  using checkValues_exact_empty [of "(CreatePMMail ''1234567'')
       \<lparr>Sender := '' '', To := '' '', Subject := '' '', TextBody := '' ''\<rparr>" "mock_env 200 []"]
  by (simp add: whitespace_only_def)

end
